theory Spec2Isabelle
  imports Complex_Main
begin

section \<open>Entities (class TurboEntity of the standalone runtime)\<close>

text \<open>
  Coordinates, angles and sizes are modelled as reals. The two effect amounts are
  JavaScript numbers with their special values, because \<open>setEffect\<close> and \<open>addEffect\<close>
  pass their argument through \<open>Math.min\<close> and \<open>Math.max\<close>: a finite number, the two
  infinities, or \<open>NaN\<close>. Objects with identity (entities) live in a store indexed by
  references; every other structure refers to an entity by its reference.
\<close>

datatype jsnum = JNum real | JPosInf | JNegInf | JNaN

text \<open>\<open>a <= b\<close> on JavaScript numbers: false as soon as one side is \<open>NaN\<close>.\<close>

fun js_le :: "jsnum \<Rightarrow> jsnum \<Rightarrow> bool" where
  "js_le JNaN _ = False"
| "js_le _ JNaN = False"
| "js_le JNegInf _ = True"
| "js_le _ JPosInf = True"
| "js_le (JNum a) (JNum b) = (a \<le> b)"
| "js_le (JNum _) JNegInf = False"
| "js_le JPosInf (JNum _) = False"
| "js_le JPosInf JNegInf = False"

text \<open>\<open>Math.min(a, b)\<close> and \<open>Math.max(a, b)\<close>: \<open>NaN\<close> as soon as one argument is \<open>NaN\<close>.\<close>

definition Math_min :: "jsnum \<Rightarrow> jsnum \<Rightarrow> jsnum" where
  "Math_min a b = (if a = JNaN \<or> b = JNaN then JNaN else if js_le a b then a else b)"

definition Math_max :: "jsnum \<Rightarrow> jsnum \<Rightarrow> jsnum" where
  "Math_max a b = (if a = JNaN \<or> b = JNaN then JNaN else if js_le a b then b else a)"

text \<open>\<open>a + b\<close> on JavaScript numbers.\<close>

fun js_add :: "jsnum \<Rightarrow> jsnum \<Rightarrow> jsnum" where
  "js_add JNaN _ = JNaN"
| "js_add _ JNaN = JNaN"
| "js_add (JNum a) (JNum b) = JNum (a + b)"
| "js_add JPosInf JNegInf = JNaN"
| "js_add JNegInf JPosInf = JNaN"
| "js_add JPosInf _ = JPosInf"
| "js_add _ JPosInf = JPosInf"
| "js_add JNegInf _ = JNegInf"
| "js_add _ JNegInf = JNegInf"

record costume =
  costume_id :: string
  costume_texture :: nat

text \<open>The object literal built by \<open>saveInitialState\<close>.\<close>

record snapshot =
  init_x :: real
  init_y :: real
  init_rotation :: real
  init_direction :: real
  init_scaleX :: real
  init_scaleY :: real
  init_visible :: bool
  init_ghost :: jsnum
  init_brightness :: jsnum
  init_costume :: int

record entity =
  eid :: string
  posx :: real
  posy :: real
  rotation :: real
  direction :: real
  scaleX :: real
  scaleY :: real
  esize :: real
  visible :: bool
  ghost :: jsnum
  brightness :: jsnum
  costumes :: "costume list"
  currentCostumeIndex :: int
  textureInfo :: "nat option"
  penDown :: bool
  dialog :: "string option"
  isClone :: bool
  initialState :: "snapshot option"

text \<open>The optional \<open>objData.entity\<close> part of the constructor's argument.\<close>

record entdata =
  d_x :: real
  d_y :: real
  d_rotation :: real
  d_direction :: real
  d_scaleX :: real
  d_scaleY :: real
  d_visible :: bool

definition saveInitialState :: "entity \<Rightarrow> entity" where
  "saveInitialState e = e\<lparr>initialState := Some
     \<lparr>init_x = posx e, init_y = posy e, init_rotation = rotation e,
      init_direction = direction e, init_scaleX = scaleX e, init_scaleY = scaleY e,
      init_visible = visible e, init_ghost = ghost e, init_brightness = brightness e,
      init_costume = currentCostumeIndex e\<rparr>\<rparr>"

text \<open>\<open>a || b\<close> on numbers: \<open>b\<close> when \<open>a\<close> is 0.\<close>

definition or_default :: "real \<Rightarrow> real \<Rightarrow> real" where
  "or_default a b = (if a = 0 then b else a)"

definition TurboEntity_new :: "string \<Rightarrow> entdata option \<Rightarrow> entity" where
  "TurboEntity_new i d =
     (let e0 = \<lparr>eid = i, posx = 0, posy = 0, rotation = 0, direction = 90,
                scaleX = 1, scaleY = 1, esize = 100, visible = True, ghost = JNum 0,
                brightness = JNum 0, costumes = [], currentCostumeIndex = 0,
                textureInfo = None, penDown = False, dialog = None, isClone = False,
                initialState = None\<rparr>;
          e1 = (case d of
                  None \<Rightarrow> e0
                | Some v \<Rightarrow> e0\<lparr>posx := or_default (d_x v) 0, posy := or_default (d_y v) 0,
                               rotation := or_default (d_rotation v) 0,
                               direction := or_default (d_direction v) 90,
                               scaleX := or_default (d_scaleX v) 1,
                               scaleY := or_default (d_scaleY v) 1,
                               visible := d_visible v\<rparr>)
      in saveInitialState e1)"

definition setCostume :: "int \<Rightarrow> entity \<Rightarrow> entity" where
  "setCostume idx e =
     (if idx < 0 \<or> idx \<ge> int (length (costumes e)) then e
      else e\<lparr>currentCostumeIndex := idx,
             textureInfo := Some (costume_texture (costumes e ! nat idx))\<rparr>)"

text \<open>\<open>Object.assign(this, this.initialState)\<close>.\<close>

definition assign_snapshot :: "snapshot \<Rightarrow> entity \<Rightarrow> entity" where
  "assign_snapshot s e =
     e\<lparr>posx := init_x s, posy := init_y s, rotation := init_rotation s,
       direction := init_direction s, scaleX := init_scaleX s, scaleY := init_scaleY s,
       visible := init_visible s, ghost := init_ghost s, brightness := init_brightness s,
       currentCostumeIndex := init_costume s\<rparr>"

text \<open>\<open>reset\<close> of the modular runtime: nothing happens without a snapshot.\<close>

definition reset :: "entity \<Rightarrow> entity" where
  "reset e =
     (case initialState e of
        None \<Rightarrow> e
      | Some s \<Rightarrow> (setCostume (init_costume s) (assign_snapshot s e))
                    \<lparr>penDown := False, dialog := None\<rparr>)"

text \<open>\<open>reset\<close> of the single-file runtime: pen and dialog are cleared in any case.\<close>

definition reset_v1 :: "entity \<Rightarrow> entity" where
  "reset_v1 e =
     (case initialState e of
        None \<Rightarrow> e
      | Some s \<Rightarrow> setCostume (init_costume s) (assign_snapshot s e))
     \<lparr>penDown := False, dialog := None\<rparr>"

definition setVisible :: "bool \<Rightarrow> entity \<Rightarrow> entity" where
  "setVisible v e = e\<lparr>visible := v\<rparr>"

subsection \<open>Graphic effects\<close>

definition setEffect :: "string \<Rightarrow> jsnum \<Rightarrow> entity \<Rightarrow> entity" where
  "setEffect effect v e =
     (if effect = ''ghost'' then e\<lparr>ghost := Math_max (JNum 0) (Math_min (JNum 100) v)\<rparr>
      else if effect = ''brightness''
        then e\<lparr>brightness := Math_max (JNum (- 100)) (Math_min (JNum 100) v)\<rparr>
      else e)"

definition addEffect :: "string \<Rightarrow> jsnum \<Rightarrow> entity \<Rightarrow> entity" where
  "addEffect effect v e =
     (if effect = ''ghost''
        then e\<lparr>ghost := Math_max (JNum 0) (Math_min (JNum 100) (js_add (ghost e) v))\<rparr>
      else if effect = ''brightness''
        then e\<lparr>brightness :=
               Math_max (JNum (- 100)) (Math_min (JNum 100) (js_add (brightness e) v))\<rparr>
      else e)"

definition clearEffects :: "entity \<Rightarrow> entity" where
  "clearEffects e = e\<lparr>ghost := JNum 0, brightness := JNum 0\<rparr>"

text \<open>
  A call of one of the three methods with a number as the amount, and the arguments
  that are numbers other than \<open>NaN\<close>.
\<close>

datatype effect_call = SetEffect string jsnum | AddEffect string jsnum | ClearEffects

fun apply_effect_call :: "entity \<Rightarrow> effect_call \<Rightarrow> entity" where
  "apply_effect_call e (SetEffect n v) = setEffect n v e"
| "apply_effect_call e (AddEffect n v) = addEffect n v e"
| "apply_effect_call e ClearEffects = clearEffects e"

fun not_NaN :: "effect_call \<Rightarrow> bool" where
  "not_NaN (SetEffect n v) = (v \<noteq> JNaN)"
| "not_NaN (AddEffect n v) = (v \<noteq> JNaN)"
| "not_NaN ClearEffects = True"

definition effects_in_range :: "entity \<Rightarrow> bool" where
  "effects_in_range e \<longleftrightarrow>
     js_le (JNum 0) (ghost e) \<and> js_le (ghost e) (JNum 100) \<and>
     js_le (JNum (- 100)) (brightness e) \<and> js_le (brightness e) (JNum 100)"

text \<open>\<open>clone\<close>: a new entity whose identifier carries the current time.\<close>

definition clone_id :: "string \<Rightarrow> string \<Rightarrow> string" where
  "clone_id i stamp = i @ ''_clone_'' @ stamp"

definition clone :: "string \<Rightarrow> entity \<Rightarrow> entity" where
  "clone stamp e =
     (TurboEntity_new (clone_id (eid e) stamp) None)
       \<lparr>posx := posx e, posy := posy e, rotation := rotation e, direction := direction e,
        scaleX := scaleX e, scaleY := scaleY e, esize := esize e, visible := visible e,
        ghost := ghost e, brightness := brightness e, costumes := costumes e,
        currentCostumeIndex := currentCostumeIndex e, textureInfo := textureInfo e,
        isClone := True\<rparr>"

section \<open>The standalone runtime (class TurboRuntime)\<close>

subsection \<open>Compiled straight-line threads as generators\<close>

text \<open>
  The scheduler is modelled over the generators of compiled straight-line threads. Each
  instruction is one statement that \<open>BlockCompiler.compileDefaultBlock\<close> generates:
  \<^item> \<open>ISetVariable v n\<close>: \<open>vars['v'] = n;\<close> (block \<open>set_variable\<close>)
  \<^item> \<open>IMessageCast m\<close>: \<open>runtime.broadcast('m');\<close> (block \<open>message_cast\<close>)
  \<^item> \<open>IMessageCastWait m\<close>: \<open>yield* runtime.broadcastAndWait('m');\<close>
  \<^item> \<open>ICreateClone t\<close>: \<open>runtime.createClone("t");\<close> (block \<open>create_clone\<close>)
  \<^item> \<open>IWaitSecond n\<close>: \<open>yield { type: 'wait', duration: n * 1000 };\<close>
  \<^item> \<open>ISetVisible b\<close>: \<open>entity.setVisible(b);\<close> (blocks \<open>show\<close>, \<open>hide\<close>)
\<close>

datatype instr =
    ISetVariable string int
  | IMessageCast string
  | IMessageCastWait string
  | ICreateClone string
  | IWaitSecond real
  | ISetVisible bool

text \<open>The values a generator yields: \<open>{type: 'tick'}\<close> and \<open>{type: 'wait', duration}\<close>.\<close>

datatype suspension = Tick | Wait real

text \<open>
  A suspended generator: the statements still to run and, when it is suspended inside
  the loop of \<open>broadcastAndWait\<close>, the value of the local \<open>executorsBefore\<close>. Every
  compiled thread and \<open>broadcastAndWait\<close> itself are declared \<open>async function*\<close>, so a
  generator that delegates with \<open>yield*\<close> awaits the delegate: when
  \<open>broadcastAndWait\<close> returns without yielding, the statements after the \<open>yield*\<close> do
  not run within the call of \<open>next()\<close> but as a pending continuation, when the caller
  has returned to the event loop (\<open>Settling\<close>).
\<close>

datatype gen = Gen (bw_before: "nat option") (gen_rest: "instr list") | Settling "instr list"

record executor =
  ex_entity :: nat
  generator :: gen
  waitUntil :: real

record runtime =
  running :: bool
  paused :: bool
  objects :: "string \<rightharpoonup> nat"
  entities :: "nat list"
  clones :: "nat list"
  store :: "nat \<rightharpoonup> entity"
  next_ref :: nat
  date_now :: string
  variables :: "string \<rightharpoonup> int"
  executors :: "executor list"
  pendingExecutors :: "executor list"
  eventListeners :: "string \<rightharpoonup> (nat \<times> instr list) list"
  compiler_cache :: "(string \<times> nat) list"

text \<open>
  \<open>store\<close> holds the entity objects, \<open>next_ref\<close> is the next unused reference,
  \<open>date_now\<close> is the text of \<open>Date.now()\<close>, and \<open>compiler_cache\<close> is the \<open>cache\<close> map
  of the \<open>BlockCompiler\<close> object the runtime compiles its scripts with (keys and the
  references of the cached functions).
\<close>

definition startExecutor :: "nat \<Rightarrow> instr list \<Rightarrow> runtime \<Rightarrow> runtime" where
  "startExecutor ent fn rt =
     rt\<lparr>executors := executors rt @
          [\<lparr>ex_entity = ent, generator = Gen None fn, waitUntil = 0\<rparr>]\<rparr>"

definition entity_visible :: "runtime \<Rightarrow> nat \<Rightarrow> bool" where
  "entity_visible rt r = (case store rt r of None \<Rightarrow> False | Some e \<Rightarrow> visible e)"

definition event_key :: "string \<Rightarrow> string \<Rightarrow> string" where
  "event_key eventType v =
     (if eventType = ''when_some_key_pressed'' then ''keyPress_'' @ v
      else if eventType = ''message'' then ''message_'' @ v
      else eventType)"

definition fireEvent :: "string \<Rightarrow> string \<Rightarrow> runtime \<Rightarrow> runtime" where
  "fireEvent eventType v rt =
     (case eventListeners rt (event_key eventType v) of
        None \<Rightarrow> rt
      | Some listeners \<Rightarrow>
          foldl (\<lambda>r (ent, fn).
                   if entity_visible r ent \<or> eventType = ''clone''
                   then startExecutor ent fn r else r)
                rt listeners)"

text \<open>\<open>fireEvent(key)\<close> of the single-file runtime takes the key as it is.\<close>

definition fireEvent_v1 :: "string \<Rightarrow> runtime \<Rightarrow> runtime" where
  "fireEvent_v1 key rt =
     (case eventListeners rt key of
        None \<Rightarrow> rt
      | Some listeners \<Rightarrow>
          foldl (\<lambda>r (ent, fn). if entity_visible r ent then startExecutor ent fn r else r)
                rt listeners)"

definition broadcast :: "string \<Rightarrow> runtime \<Rightarrow> runtime" where
  "broadcast messageId rt = fireEvent ''message'' messageId rt"

definition broadcast_v1 :: "string \<Rightarrow> runtime \<Rightarrow> runtime" where
  "broadcast_v1 msgId rt = fireEvent_v1 (''message_'' @ msgId) rt"

text \<open>Allocation of a new entity object.\<close>

definition new_object :: "entity \<Rightarrow> runtime \<Rightarrow> nat \<times> runtime" where
  "new_object e rt =
     (next_ref rt, rt\<lparr>store := (store rt)(next_ref rt \<mapsto> e), next_ref := Suc (next_ref rt)\<rparr>)"

definition createClone :: "string \<Rightarrow> runtime \<Rightarrow> runtime" where
  "createClone targetId rt =
     (if targetId = ''self'' then rt
      else case objects rt targetId of
        None \<Rightarrow> rt
      | Some tref \<Rightarrow>
         (case store rt tref of
            None \<Rightarrow> rt
          | Some targetEntity \<Rightarrow>
              if length (clones rt) \<ge> 360 then rt
              else
                (case new_object (clone (date_now rt) targetEntity) rt of
                   (cref, rt1) \<Rightarrow>
                     (let rt2 = rt1\<lparr>clones := clones rt1 @ [cref]\<rparr>
                      in case eventListeners rt2 ''clone'' of
                           None \<Rightarrow> rt2
                         | Some listeners \<Rightarrow>
                             foldl (\<lambda>r (ent, fn).
                                      if map_option eid (store r ent) = Some (eid targetEntity)
                                      then startExecutor cref fn r else r)
                                   rt2 listeners))))"

definition createClone_v1 :: "string \<Rightarrow> runtime \<Rightarrow> runtime" where
  "createClone_v1 targetId rt =
     (case objects rt targetId of
        None \<Rightarrow> rt
      | Some tref \<Rightarrow>
         (case store rt tref of
            None \<Rightarrow> rt
          | Some target \<Rightarrow>
              if length (clones rt) \<ge> 360 then rt
              else
                (case new_object (clone (date_now rt) target) rt of
                   (cref, rt1) \<Rightarrow> rt1\<lparr>clones := clones rt1 @ [cref]\<rparr>)))"

text \<open>
  \<open>TurboEntity.destroy\<close>: a clone removes itself from \<open>runtime.clones\<close> (\<open>indexOf\<close>
  and \<open>splice\<close>: the first occurrence), and the entity becomes invisible.
\<close>

definition entity_destroy :: "nat \<Rightarrow> runtime \<Rightarrow> runtime" where
  "entity_destroy r rt =
     (case store rt r of
        None \<Rightarrow> rt
      | Some e \<Rightarrow>
          (let rt1 = (if isClone e then rt\<lparr>clones := remove1 r (clones rt)\<rparr> else rt)
           in rt1\<lparr>store := (store rt1)(r \<mapsto> setVisible False e)\<rparr>))"

lemma entity_destroy_clones_length:
  "length (clones (entity_destroy r rt)) \<le> length (clones rt)"
  by (simp add: entity_destroy_def Let_def length_remove1 split: option.split)

text \<open>
  \<open>for (const clone of this.clones) clone.destroy();\<close>: the array iterator reads the
  live array by index, while \<open>destroy\<close> removes elements from it.
\<close>

function destroy_clones_loop :: "nat \<Rightarrow> runtime \<Rightarrow> runtime" where
  "destroy_clones_loop i rt =
     (if i < length (clones rt)
      then destroy_clones_loop (Suc i) (entity_destroy (clones rt ! i) rt)
      else rt)"
  by pat_completeness auto
termination
proof (relation "measure (\<lambda>(i, rt). length (clones rt) - i)")
  show "wf (measure (\<lambda>(i, rt). length (clones rt) - i))" by simp
next
  fix i :: nat and rt :: runtime
  assume "i < length (clones rt)"
  moreover have "length (clones (entity_destroy (clones rt ! i) rt)) \<le> length (clones rt)"
    by (rule entity_destroy_clones_length)
  ultimately show "((Suc i, entity_destroy (clones rt ! i) rt), (i, rt))
        \<in> measure (\<lambda>(i, rt). length (clones rt) - i)"
    by simp
qed

declare destroy_clones_loop.simps [simp del]

definition reset_at :: "(entity \<Rightarrow> entity) \<Rightarrow> runtime \<Rightarrow> nat \<Rightarrow> runtime" where
  "reset_at f rt r =
     (case store rt r of None \<Rightarrow> rt | Some e \<Rightarrow> rt\<lparr>store := (store rt)(r \<mapsto> f e)\<rparr>)"

text \<open>
  \<open>stop\<close> of the modular runtime. Cancelling the animation frame, stopping the sounds
  and the final \<open>render\<close> act on collaborators only.
\<close>

definition stop :: "runtime \<Rightarrow> runtime" where
  "stop rt =
     (let rt1 = rt\<lparr>running := False, paused := False, executors := [], pendingExecutors := []\<rparr>;
          rt2 = destroy_clones_loop 0 rt1;
          rt3 = rt2\<lparr>clones := []\<rparr>
      in foldl (reset_at reset) rt3 (entities rt3))"

definition stop_v1 :: "runtime \<Rightarrow> runtime" where
  "stop_v1 rt =
     (let rt1 = rt\<lparr>running := False, executors := []\<rparr>;
          rt2 = destroy_clones_loop 0 rt1;
          rt3 = rt2\<lparr>clones := []\<rparr>
      in foldl (reset_at reset_v1) rt3 (entities rt3))"

subsection \<open>Resuming a generator\<close>

text \<open>
  \<open>generator.next()\<close> for the executor of entity \<open>ent\<close>. The generator is an async
  generator: the call runs the statements, within the call, up to the next \<open>yield\<close>, to
  the end, or to the point where it awaits a delegate, and returns a promise.
  \<open>gen_next\<close> gives the generator and the runtime after the call. The loop of
  \<open>broadcastAndWait\<close> is \<open>while (this.executors.length > executorsBefore) yield { type: 'tick' }\<close>.
  A generator that has ended stays as it is. A call of \<open>next()\<close> on a generator with a
  pending continuation is queued by the engine; this does not happen here, because the
  continuations run before the next pass.
\<close>

function gen_next :: "gen \<Rightarrow> nat \<Rightarrow> runtime \<Rightarrow> gen \<times> runtime" where
  "gen_next (Gen (Some before) rest) ent rt =
     (if length (executors rt) > before then (Gen (Some before) rest, rt)
      else (Settling rest, rt))"
| "gen_next (Settling rest) ent rt = (Settling rest, rt)"
| "gen_next (Gen None []) ent rt = (Gen None [], rt)"
| "gen_next (Gen None (ISetVariable v n # rest)) ent rt =
     gen_next (Gen None rest) ent (rt\<lparr>variables := (variables rt)(v \<mapsto> n)\<rparr>)"
| "gen_next (Gen None (IMessageCast m # rest)) ent rt =
     gen_next (Gen None rest) ent (broadcast m rt)"
| "gen_next (Gen None (IMessageCastWait m # rest)) ent rt =
     (if length (executors (broadcast m rt)) > length (executors rt)
      then (Gen (Some (length (executors rt))) rest, broadcast m rt)
      else (Settling rest, broadcast m rt))"
| "gen_next (Gen None (ICreateClone t # rest)) ent rt =
     gen_next (Gen None rest) ent (createClone t rt)"
| "gen_next (Gen None (IWaitSecond n # rest)) ent rt = (Gen None rest, rt)"
| "gen_next (Gen None (ISetVisible b # rest)) ent rt =
     gen_next (Gen None rest) ent (reset_at (setVisible b) rt ent)"
  by pat_completeness auto
termination
  by (relation "measure (\<lambda>(g, ent, rt).
        case g of Gen w rest \<Rightarrow> length rest | Settling rest \<Rightarrow> length rest)") auto

subsection \<open>The scheduler pass\<close>

text \<open>
  What \<open>next()\<close> returns is a promise. A promise has no property \<open>done\<close> and no
  property \<open>value\<close>: \<open>result.done\<close> and \<open>result.value\<close> are \<open>undefined\<close>.
\<close>

datatype promise = Promise

definition result_done :: "promise \<Rightarrow> bool" where
  "result_done result = False"

definition result_value :: "promise \<Rightarrow> suspension option" where
  "result_value result = None"

text \<open>
  The loop of \<open>updateExecutors\<close>, \<open>for (let i = 0; i < this.executors.length; i++)\<close>.
  The bound is read from the live array on every iteration, and a step can push new
  executors, so the loop need not end: the fuel counts its iterations and \<open>None\<close> means
  that the pass did not finish within the fuel. \<open>next()\<close> of an async generator does not
  throw, so the \<open>catch\<close> branch is not taken.
\<close>

fun update_loop ::
  "nat \<Rightarrow> nat \<Rightarrow> nat list \<Rightarrow> real \<Rightarrow> runtime \<Rightarrow> (nat list \<times> runtime) option" where
  "update_loop 0 i completed now rt = None"
| "update_loop (Suc fuel) i completed now rt =
     (if i < length (executors rt) then
        (let ex = executors rt ! i in
         if waitUntil ex > now then update_loop fuel (Suc i) completed now rt
         else
           (case gen_next (generator ex) (ex_entity ex) rt of
              (g, rt1) \<Rightarrow>
                (let result = Promise;
                     rt2 = rt1\<lparr>executors := (executors rt1)[i := ex\<lparr>generator := g\<rparr>]\<rparr>
                 in if result_done result
                    then update_loop fuel (Suc i) (completed @ [i]) now rt2
                    else
                      (case result_value result of
                         Some (Wait d) \<Rightarrow>
                           update_loop fuel (Suc i) completed now
                             (rt1\<lparr>executors := (executors rt1)
                                    [i := ex\<lparr>generator := g, waitUntil := now + d\<rparr>]\<rparr>)
                       | _ \<Rightarrow> update_loop fuel (Suc i) completed now rt2))))
      else Some (completed, rt))"

text \<open>\<open>xs.splice(i, 1)\<close>.\<close>

definition splice1 :: "nat \<Rightarrow> 'a list \<Rightarrow> 'a list" where
  "splice1 i xs = take i xs @ drop (Suc i) xs"

definition updateExecutors :: "nat \<Rightarrow> real \<Rightarrow> runtime \<Rightarrow> runtime option" where
  "updateExecutors fuel now rt =
     (case update_loop fuel 0 [] now rt of
        None \<Rightarrow> None
      | Some (completedExecutors, rt1) \<Rightarrow>
          (let rt2 = rt1\<lparr>executors :=
                      foldl (\<lambda>xs i. splice1 i xs) (executors rt1) (rev completedExecutors)\<rparr>
           in Some (if pendingExecutors rt2 \<noteq> []
                    then rt2\<lparr>executors := executors rt2 @ pendingExecutors rt2,
                             pendingExecutors := []\<rparr>
                    else rt2)))"

text \<open>
  When \<open>mainLoop\<close> has returned, the engine runs the pending continuations: every
  generator that awaited a delegate which has returned goes on up to its next \<open>yield\<close>,
  in the order in which the generators were resumed; a continuation that ends with
  another such await is run again after the others. \<open>frame\<close> is one animation frame:
  the pass of \<open>updateExecutors\<close> and the continuations after it.
\<close>

fun is_settling :: "executor \<Rightarrow> bool" where
  "is_settling ex = (case generator ex of Settling _ \<Rightarrow> True | Gen _ _ \<Rightarrow> False)"

fun settle_loop :: "nat \<Rightarrow> nat \<Rightarrow> runtime \<Rightarrow> runtime option" where
  "settle_loop 0 i rt = None"
| "settle_loop (Suc fuel) i rt =
     (if i < length (executors rt) then
        (let ex = executors rt ! i in
         case generator ex of
           Settling rest \<Rightarrow>
             (case gen_next (Gen None rest) (ex_entity ex) rt of
                (g, rt1) \<Rightarrow>
                  settle_loop fuel (Suc i)
                    (rt1\<lparr>executors := (executors rt1)[i := ex\<lparr>generator := g\<rparr>]\<rparr>))
         | Gen _ _ \<Rightarrow> settle_loop fuel (Suc i) rt)
      else if list_ex is_settling (executors rt) then settle_loop fuel 0 rt
      else Some rt)"

definition frame :: "nat \<Rightarrow> real \<Rightarrow> runtime \<Rightarrow> runtime option" where
  "frame fuel now rt =
     (case updateExecutors fuel now rt of
        None \<Rightarrow> None
      | Some rt1 \<Rightarrow> settle_loop fuel 0 rt1)"

fun frames :: "nat \<Rightarrow> real list \<Rightarrow> runtime \<Rightarrow> runtime option" where
  "frames fuel [] rt = Some rt"
| "frames fuel (now # nows) rt =
     (case frame fuel now rt of None \<Rightarrow> None | Some rt1 \<Rightarrow> frames fuel nows rt1)"

section \<open>Blocks, schemas and generated code\<close>

text \<open>
  A block has a type tag, a list of parameters and a list of statement lists. A parameter
  is \<open>null\<close>/\<open>undefined\<close> (\<open>PNull\<close>), a number, a string, a boolean, a nested block, or
  a plain object without a type (\<open>PObj\<close>), whose text \<open>String(p)\<close> is
  \<open>[object Object]\<close>. Arrays as parameters are not modelled. Type tags are strings.
\<close>

datatype param = PNull | PNum real | PStr string | PBool bool | PBlock block | PObj
and block = Block (btype: string) (bparams: "param list") (bstatements: "block list list")

text \<open>
  The second argument of \<open>getParam\<close> and \<open>compileStatements\<close>: a symbolic name or a
  number. It is also the property name looked up in a key map.
\<close>

datatype pname = Name string | Index nat

text \<open>
  An entry of the table \<open>Entry.block\<close> of the host, which is not part of this repository:
  the compilers take the table as the argument \<open>E\<close> (\<open>E t = None\<close> when \<open>Entry\<close> is
  undefined or has no entry for \<open>t\<close>). A schema is an object that may have the two key
  maps; it is not a function.
\<close>

record schema =
  paramsKeyMap :: "(pname \<rightharpoonup> nat) option"
  statementsKeyMap :: "(pname \<rightharpoonup> nat) option"

text \<open>
  The compilers return JavaScript source text. The model returns the syntax tree of that
  text, together with the pieces of text that are no JavaScript. Expressions:
  \<^item> \<open>ENum n\<close>: \<open>String(n)\<close>; \<open>ENum 0\<close> is the text \<open>'0'\<close>
  \<^item> \<open>EStr s\<close>: \<open>JSON.stringify(s)\<close>; \<open>EBool b\<close>: \<open>String(b)\<close>; \<open>EUndefined\<close>: \<open>undefined\<close>
  \<^item> \<open>ENotCode\<close>: a text that is no expression, \<open>[object Object]\<close> or
    \<open>function toString() { [native code] }\<close>
  \<^item> \<open>EInherited t\<close>: the result of the member \<open>t\<close> of \<open>Object.prototype\<close> called as a
    compiler, where it depends on the host
  \<^item> \<open>EFunctionParam t\<close>: \<open>runtime.getFunctionParam(entity, 't')\<close>
  \<^item> \<open>ECallFunctionValue f args\<close>: \<open>(yield* runtime.callFunctionValue('f', entity, [args]))\<close>
  \<^item> \<open>EOp t args\<close>: the text that the table entry for block type \<open>t\<close> builds around
    the texts \<open>args\<close>
  \<^item> \<open>ERaw p\<close>: the parameter \<open>p\<close> spliced in between single quotes, \<open>'${p}'\<close>
  \<^item> \<open>EKey p\<close>: the parameter \<open>p\<close> where the compiler only compares it with a constant
    or looks it up among the own keys of an object literal: it selects the text and is
    not part of it
  \<^item> \<open>EJson p\<close>: \<open>JSON.stringify(p)\<close>; \<open>EObject p\<close>: the object \<open>p\<close> itself, held by a
    closure
  \<^item> \<open>ENested code\<close>: the text \<open>code\<close> that \<open>BlockCompiler.compileBlock\<close> returns for a
    nested block, spliced in where an expression is expected

  Statements:
  \<^item> \<open>SComment c\<close>: the line comment \<open>// c\<close>; \<open>SCommentOf p\<close>: a line comment that ends
    with the text of the parameter \<open>p\<close>; \<open>SBlockComment t\<close>: \<open>/* Unknown block: t */\<close>
  \<^item> \<open>SNotCode\<close>: the text \<open>[object Object]\<close>; \<open>SInherited t\<close>: the result of the member
    \<open>t\<close> of \<open>Object.prototype\<close> called as a compiler, where the model does not determine it
  \<^item> \<open>SWarn t\<close>: \<open>console.warn('[TurboCompiler] Unsupported block skipped:', 't');\<close>
  \<^item> \<open>SPrim t args\<close>: the call or assignment statements generated for the plain block
    type \<open>t\<close> (no \<open>yield\<close> of their own, no jump); \<open>SExpr e\<close>: an expression statement
  \<^item> \<open>SYieldTick\<close>: \<open>yield { type: 'tick' };\<close>
  \<^item> \<open>SYieldWait e\<close>: \<open>yield { type: 'wait', duration: (e) * 1000 };\<close>
  \<^item> \<open>SYieldStar h args\<close>: \<open>yield* h(args);\<close>, delegation to a generator of the runtime
  \<^item> \<open>SBreak\<close>: \<open>break;\<close> and \<open>SReturn\<close>: \<open>return;\<close>
  \<^item> \<open>SGuard k\<close>: \<open>if (++_loopCount > k) { yield { type: 'tick' }; _loopCount = 0; }\<close>
  \<^item> \<open>SForFloor e body\<close>:
    \<open>for (let _i = 0, _max = Math.floor(e); _i < _max; _i++) { body }\<close>
  \<^item> \<open>SForLess e body\<close>: \<open>for (let _i = 0; _i < e; _i++) { body }\<close>
  \<^item> \<open>SWhileTrue body\<close>: \<open>while (true) { body }\<close>; \<open>SWhile e body\<close>: \<open>while (e) { body }\<close>
  \<^item> \<open>SIf e a b\<close>: \<open>if (e) { a } else { b }\<close>
\<close>

datatype expr =
    ENum real
  | EStr string
  | EBool bool
  | EUndefined
  | ENotCode
  | EInherited string
  | EFunctionParam string
  | ECallFunctionValue string "expr list"
  | EOp string "expr list"
  | ERaw param
  | EKey param
  | EJson param
  | EObject param
  | ENested "stmt list"
and stmt =
    SComment string
  | SCommentOf param
  | SBlockComment string
  | SNotCode
  | SInherited string
  | SWarn string
  | SPrim string "expr list"
  | SExpr expr
  | SYieldTick
  | SYieldWait expr
  | SYieldStar string "expr list"
  | SBreak
  | SReturn
  | SGuard nat
  | SForFloor expr "stmt list"
  | SForLess expr "stmt list"
  | SWhileTrue "stmt list"
  | SWhile expr "stmt list"
  | SIf expr "stmt list" "stmt list"

subsection \<open>Object literals as lookup tables\<close>

text \<open>
  The compilers look a block type up with \<open>table[type]\<close> in an object literal. Such a
  lookup also finds the members that every object inherits from \<open>Object.prototype\<close>.
  \<open>inherited_member t\<close> is what the inherited member \<open>t\<close> does when \<open>TurboCompiler\<close>
  calls it as a compiler, \<open>member.call(this, block, schema)\<close>:
  \<^item> \<open>toString\<close>, \<open>toLocaleString\<close>: the text \<open>[object Object]\<close>; \<open>valueOf\<close>: the compiler
    object and \<open>constructor\<close>: the block object, both of which are turned into the text
    \<open>[object Object]\<close> when the result is joined or spliced in;
  \<^item> \<open>hasOwnProperty\<close>, \<open>isPrototypeOf\<close>, \<open>propertyIsEnumerable\<close>: \<open>false\<close>;
  \<^item> \<open>__lookupGetter__\<close>, \<open>__lookupSetter__\<close>: \<open>undefined\<close>;
  \<^item> \<open>__proto__\<close>: the lookup gives the object \<open>Object.prototype\<close>, which has no method
    \<open>call\<close>, so the call throws a TypeError;
  \<^item> \<open>__defineGetter__\<close>, \<open>__defineSetter__\<close>: a TypeError when the schema is not a
    function, \<open>undefined\<close> when it is one (with a host whose \<open>Entry.block\<close> is itself an
    object literal the schema found for these two types is the inherited function).
\<close>

datatype inherited = ObjectText | FalseValue | UndefinedValue | Throws | HostDependent

definition inherited_members :: "(string \<times> inherited) list" where
  "inherited_members =
    [(''constructor'', ObjectText), (''toString'', ObjectText),
     (''toLocaleString'', ObjectText), (''valueOf'', ObjectText),
     (''hasOwnProperty'', FalseValue), (''isPrototypeOf'', FalseValue),
     (''propertyIsEnumerable'', FalseValue),
     (''__lookupGetter__'', UndefinedValue), (''__lookupSetter__'', UndefinedValue),
     (''__proto__'', Throws),
     (''__defineGetter__'', HostDependent), (''__defineSetter__'', HostDependent)]"

definition inherited_member :: "string \<Rightarrow> inherited option" where
  "inherited_member t = map_of inherited_members t"

definition object_prototype_keys :: "string list" where
  "object_prototype_keys = map fst inherited_members"

text \<open>
  A parameter used as the key of a lookup \<open>ops[op] || default\<close>: only a string can name
  an inherited member. The inherited member is an object or a function, so the lookup
  succeeds and its text (\<open>[object Object]\<close> or the source of a native function) is
  spliced in where an operator or an expression is expected.
\<close>

definition inherited_key :: "param \<Rightarrow> bool" where
  "inherited_key p = (case p of PStr s \<Rightarrow> s \<in> set object_prototype_keys | _ \<Rightarrow> False)"

definition lookup_key :: "param \<Rightarrow> expr" where
  "lookup_key p = (if inherited_key p then ENotCode else EKey p)"



section \<open>TurboCompiler (entry-turbo.js)\<close>

text \<open>\<open>params?.[i]\<close>: \<open>undefined\<close> out of range.\<close>

definition param_at :: "param list \<Rightarrow> nat \<Rightarrow> param" where
  "param_at ps i = (if i < length ps then ps ! i else PNull)"

text \<open>\<open>t.startsWith(p)\<close>.\<close>

definition starts_with :: "string \<Rightarrow> string \<Rightarrow> bool" where
  "starts_with t p \<longleftrightarrow> take (length p) t = p"

definition is_param_type :: "string \<Rightarrow> bool" where
  "is_param_type t \<longleftrightarrow> starts_with t ''stringParam_'' \<or> starts_with t ''booleanParam_''"

text \<open>\<open>(block.params || []).filter(p => p && typeof p === 'object' && p.type)\<close>.\<close>

fun func_args :: "param list \<Rightarrow> block list" where
  "func_args [] = []"
| "func_args (PBlock b # ps) = (if btype b \<noteq> [] then b # func_args ps else func_args ps)"
| "func_args (_ # ps) = func_args ps"

text \<open>
  The own keys of the table \<open>expressionCompilers\<close>: for every key, the positions of the
  parameters it compiles with \<open>compileParamValue\<close>, the names it reads with \<open>getParam\<close>,
  the positions of the parameters it splices in between quotes, of those it compares
  with a constant, and of those it looks up in an object literal of operators. The keys
  \<open>number\<close>, \<open>text\<close> and \<open>angle\<close> are never reached: \<open>compileExpression\<close> handles them
  before the lookup.
\<close>

type_synonym expr_entry = "nat list \<times> pname list \<times> nat list \<times> nat list \<times> nat list"

definition expr_entries :: "(string \<times> expr_entry) list" where
  "expr_entries =
    [(''True'', [], [], [], [], []), (''False'', [], [], [], [], []),
     (''get_variable'', [], [], [0], [], []),
     (''value_of_index_from_list'', [], [Name ''VALUE''], [1], [], []),
     (''length_of_list'', [], [], [1], [], []),
     (''calc_basic'', [0, 2], [], [], [], [1]),
     (''calc_rand'', [1, 3], [], [], [], []),
     (''calc_operation'', [1], [], [], [], [3]),
     (''quotient_and_mod'', [1, 3], [], [], [5], []),
     (''boolean_basic_operator'', [0, 2], [], [], [], [1]),
     (''boolean_and_or'', [0, 2], [], [], [1], []),
     (''boolean_not'', [1], [], [], [], []),
     (''coordinate_mouse'', [], [], [], [1], []),
     (''coordinate_object'', [1], [], [3], [], []),
     (''is_press_some_key'', [1], [], [], [], []),
     (''is_clicked'', [], [], [], [], []),
     (''reach_something'', [1], [], [], [], []),
     (''length_of_string'', [1], [], [], [], []),
     (''combine_something'', [1, 3], [], [], [], []),
     (''char_at'', [1, 3], [], [], [], []),
     (''get_project_timer_value'', [], [], [], [], []),
     (''get_canvas_input_value'', [], [], [], [], [])]"

definition expr_entry :: "string \<Rightarrow> expr_entry option" where
  "expr_entry t = map_of expr_entries t"

text \<open>The arguments that are taken from the parameters as they are.\<close>

definition plain_args :: "param list \<Rightarrow> nat list \<Rightarrow> nat list \<Rightarrow> nat list \<Rightarrow> expr list" where
  "plain_args ps raws compared lookups =
     map (\<lambda>i. ERaw (param_at ps i)) raws @ map (\<lambda>i. EKey (param_at ps i)) compared
     @ map (\<lambda>i. lookup_key (param_at ps i)) lookups"

text \<open>
  \<open>compileParamValue\<close>, \<open>compileExpression\<close> and \<open>getParam\<close>. The warnings written to the
  console during compilation are not part of the result. A table entry that throws is
  caught by \<open>compileExpression\<close>, which then returns \<open>'0'\<close>.
\<close>

lemma size_param_at: "size (param_at ps i) \<le> size_list size ps"
  using size_list_estimation' [of "ps ! i" ps "size (ps ! i)" size]
  by (simp add: param_at_def)

lemma size_func_args: "b \<in> set (func_args ps) \<Longrightarrow> size b < size_list size ps"
  by (induction ps rule: func_args.induct) (auto split: if_splits)

function compileParamValue :: "(string \<Rightarrow> schema option) \<Rightarrow> param \<Rightarrow> expr"
  and compileExpression :: "(string \<Rightarrow> schema option) \<Rightarrow> block \<Rightarrow> expr"
  and getParam :: "(string \<Rightarrow> schema option) \<Rightarrow> block \<Rightarrow> pname \<Rightarrow> schema option \<Rightarrow> expr"
where
  "compileParamValue E PNull = ENum 0"
| "compileParamValue E (PNum n) = ENum n"
| "compileParamValue E (PStr s) = EStr s"
| "compileParamValue E (PBool b) = EBool b"
| "compileParamValue E (PBlock b) =
     (if btype b = [] then ENum 0
      else if is_param_type (btype b) then EFunctionParam (btype b)
      else compileExpression E b)"
| "compileParamValue E PObj = ENum 0"
| "compileExpression E (Block t ps ss) =
     (if t = [] then ENum 0
      else if t = ''number'' \<or> t = ''text'' \<or> t = ''angle'' then
        (case param_at ps 0 of
           PNull \<Rightarrow> ENum 0
         | PNum n \<Rightarrow> ENum n
         | PStr s \<Rightarrow> EStr s
         | PBool b \<Rightarrow> EStr (if b then ''true'' else ''false'')
         | PBlock _ \<Rightarrow> EStr ''[object Object]''
         | PObj \<Rightarrow> EStr ''[object Object]'')
      else if is_param_type t then EFunctionParam t
      else if starts_with t ''func_'' then
        ECallFunctionValue (drop 5 t) (map (compileExpression E) (func_args ps))
      else
        (case expr_entry t of
           Some (values, names, raws, compared, lookups) \<Rightarrow>
             EOp t (map (\<lambda>i. compileParamValue E (param_at ps i)) values
                    @ map (\<lambda>n. getParam E (Block t ps ss) n (E t)) names
                    @ plain_args ps raws compared lookups)
         | None \<Rightarrow>
             (case inherited_member t of
                Some ObjectText \<Rightarrow> ENotCode
              | Some FalseValue \<Rightarrow> EBool False
              | Some UndefinedValue \<Rightarrow> EUndefined
              | Some Throws \<Rightarrow> ENum 0
              | Some HostDependent \<Rightarrow> EInherited t
              | None \<Rightarrow> ENum 0)))"
| "getParam E (Block t ps ss) paramName sch =
     (case (case sch of None \<Rightarrow> None | Some sc \<Rightarrow> paramsKeyMap sc) of
        None \<Rightarrow>
          compileParamValue E (param_at ps (case paramName of Index n \<Rightarrow> n | Name _ \<Rightarrow> 0))
      | Some keyMap \<Rightarrow>
          (case keyMap paramName of
             None \<Rightarrow> ENum 0
           | Some index \<Rightarrow> compileParamValue E (param_at ps index)))"
  by pat_completeness auto
termination
proof (relation "measure (\<lambda>x. case x of
          Inl (E, p) \<Rightarrow> 2 * size p + 1
        | Inr (Inl (E, b)) \<Rightarrow> 2 * size b + 1
        | Inr (Inr (E, b, n, sc)) \<Rightarrow> 2 * size b)", goal_cases)
  case 1
  then show ?case by simp
next
  case (2 E b)
  then show ?case by simp
next
  case (3 E t ps ss x)
  then show ?case using size_func_args [of x ps] by simp
next
  case (4 E t ps ss x2 vs x ns y rs z cs ls i)
  then show ?case using size_param_at [of ps i] by simp
next
  case (5 E t ps ss x2 vs x ns y rs z cs ls n)
  then show ?case by simp
next
  case (6 E t ps ss paramName sch)
  then show ?case using size_param_at [of ps "case paramName of Index n \<Rightarrow> n | Name _ \<Rightarrow> 0"] by simp
next
  case (7 E t ps ss paramName sch keyMap index)
  then show ?case using size_param_at [of ps index] by simp
qed

text \<open>\<open>statements?.[i]\<close>; a missing body compiles to the empty text.\<close>

definition stmts_at :: "block list list \<Rightarrow> nat \<Rightarrow> block list" where
  "stmts_at ss i = (if i < length ss then ss ! i else [])"




lemma size_stmts_at: "size_list size (stmts_at ss i) \<le> size_list (size_list size) ss"
  using size_list_estimation' [of "ss ! i" ss "size_list size (ss ! i)" "size_list size"]
  by (simp add: stmts_at_def)


section \<open>BlockCompiler (standalone runtime)\<close>

text \<open>
  The two copies of \<open>BlockCompiler\<close> (the object map of the single-file runtime and the
  \<open>switch\<close> of the modular one) generate the same statements for the same block types;
  they differ in the words of their comments and in the operations that
  \<open>calc_operation\<close> knows, which the syntax tree does not show. The registry
  \<open>compilers\<close> of custom compilers is empty, but \<open>this.compilers[type]\<close> still finds the
  members inherited from \<open>Object.prototype\<close>, and \<open>compileBlock\<close> calls what it finds:
  the model records that as \<open>SInherited\<close> and goes no further (for \<open>__proto__\<close> the
  call throws a TypeError out of \<open>compileThread\<close>). \<open>bc_plain_entries\<close>,
  \<open>bc_yield_entries\<close> and \<open>bc_expr_entries\<close> list, for the block types of
  \<open>compileDefaultBlock\<close>, the positions of the parameters compiled with \<open>compileParam\<close>,
  of those spliced in between quotes, of those compared with a constant and of those
  looked up in an object literal.
\<close>

definition bc_plain_entries :: "(string \<times> nat list \<times> nat list) list" where
  "bc_plain_entries =
    [(''move_direction'', [0], []), (''move_x'', [0], []), (''move_y'', [0], []),
     (''locate_x'', [0], []), (''locate_y'', [0], []), (''locate_xy'', [0, 1], []),
     (''locate'', [0], []), (''rotate_by_angle'', [0], []), (''direction_relative'', [0], []),
     (''move_to_angle'', [0, 1], []),
     (''show'', [], []), (''hide'', [], []), (''dialog'', [0], []), (''remove_dialog'', [], []),
     (''change_to_next_shape'', [], []), (''change_to_prev_shape'', [], []),
     (''add_effect_amount'', [1], [0]), (''change_effect_amount'', [1], [0]),
     (''erase_all_effects'', [], []), (''change_scale_size'', [0], []),
     (''set_scale_size'', [0], []),
     (''sound_something'', [0], []), (''sound_volume_change'', [0], []),
     (''sound_volume_set'', [0], []), (''sound_silent_all'', [], []),
     (''set_variable'', [0], [1]), (''change_variable'', [0], [1]),
     (''show_variable'', [], [0]), (''hide_variable'', [], [0]),
     (''add_value_to_list'', [0], [1]), (''remove_value_from_list'', [0], [1]),
     (''insert_value_to_list'', [1, 0], [2]), (''change_value_list_index'', [1, 0], [2]),
     (''start_drawing'', [], []), (''stop_drawing'', [], []), (''set_color'', [0], []),
     (''set_thickness'', [0], []), (''clear_stamp'', [], []), (''stamp'', [], []),
     (''message_cast'', [], [0]), (''create_clone'', [0], [])]"

definition bc_yield_entries :: "(string \<times> string \<times> nat list \<times> nat list) list" where
  "bc_yield_entries =
    [(''rotate_by_angle_time'', ''runtime.rotateDuring'', [0, 1], []),
     (''dialog_time'', ''runtime.sayForSecs'', [0, 1], []),
     (''sound_something_wait'', ''runtime.playSoundAndWait'', [0], []),
     (''message_cast_wait'', ''runtime.broadcastAndWait'', [], [0])]"

definition bc_expr_entries ::
  "(string \<times> nat list \<times> nat list \<times> nat list \<times> nat list) list" where
  "bc_expr_entries =
    [(''is_press_some_key'', [0], [], [], []), (''is_clicked'', [], [], [], []),
     (''reach_something'', [0], [], [], []),
     (''calc_basic'', [0, 2], [], [], [1]), (''calc_rand'', [0, 1], [], [], []),
     (''coordinate_mouse'', [], [], [0], []), (''coordinate_object'', [0], [1], [], []),
     (''calc_operation'', [1], [], [], [0]), (''get_project_timer_value'', [], [], [], []),
     (''length_of_string'', [0], [], [], []), (''combine_something'', [0, 1], [], [], []),
     (''char_at'', [1, 0], [], [], []), (''get_variable'', [], [0], [], []),
     (''value_of_index_from_list'', [0], [1], [], []), (''length_of_list'', [], [0], [], [])]"

text \<open>
  \<open>compileParam\<close> compiles a nested block with \<open>compileBlock\<close> and splices the text it
  gets in as it is (\<open>ENested\<close>); any other object goes through \<open>JSON.stringify\<close>.
\<close>

lemma param_at_bound:
  "4 * size (param_at ps i) < Suc (4 * size_list size ps + m)"
  "4 * size (param_at ps i) < Suc (Suc (4 * size_list size ps + m))"
  using size_param_at [of ps i] by simp_all

lemma stmts_at_bound:
  "4 * size_list size (stmts_at ss i) < Suc (4 * size_list (size_list size) ss)"
  "4 * size_list size (stmts_at ss i) < Suc (m + 4 * size_list (size_list size) ss)"
  using size_stmts_at [of ss i] by simp_all

function compileParam :: "param \<Rightarrow> expr"
  and bc_compileBlock :: "block \<Rightarrow> stmt list"
  and compileDefaultBlock :: "string \<Rightarrow> param list \<Rightarrow> block list list \<Rightarrow> stmt list"
  and compileRepeat :: "param list \<Rightarrow> block list list \<Rightarrow> stmt list"
  and compileRepeatInf :: "block list list \<Rightarrow> stmt list"
  and compileRepeatWhile :: "param list \<Rightarrow> block list list \<Rightarrow> stmt list"
  and compileIf :: "param list \<Rightarrow> block list list \<Rightarrow> stmt list"
  and compileIfElse :: "param list \<Rightarrow> block list list \<Rightarrow> stmt list"
  and bc_compileStatements :: "block list \<Rightarrow> stmt list"
where
  "compileParam PNull = ENum 0"
| "compileParam (PNum n) = ENum n"
| "compileParam (PStr s) = EStr s"
| "compileParam (PBool b) = EBool b"
| "compileParam (PBlock b) =
     (if btype b \<noteq> [] then ENested (bc_compileBlock b) else EJson (PBlock b))"
| "compileParam PObj = EJson PObj"
| "bc_compileBlock (Block t ps ss) =
     (if t \<in> set object_prototype_keys then [SInherited t] else compileDefaultBlock t ps ss)"
| "compileDefaultBlock t ps ss =
     (if t = ''when_run_button_click'' \<or> t = ''when_clone_start'' then [SComment t]
      else if t = ''when_message_cast'' then [SCommentOf (param_at ps 0)]
      else if t = ''when_some_key_pressed'' then
        [SIf (EOp ''runtime.pressedKey !=='' [compileParam (param_at ps 0)]) [SReturn] [] ]
      else if t = ''wait_second'' then [SYieldWait (compileParam (param_at ps 0))]
      else if t = ''repeat_basic'' then compileRepeat ps ss
      else if t = ''repeat_inf'' then compileRepeatInf ss
      else if t = ''repeat_while_true'' then compileRepeatWhile ps ss
      else if t = ''_if'' then compileIf ps ss
      else if t = ''if_else'' then compileIfElse ps ss
      else if t = ''stop_repeat'' then [SBreak]
      else if t = ''stop_object'' then [SReturn]
      else if t = ''delete_clone'' then
        [SIf (EOp ''entity.isClone'' []) [SPrim ''entity.destroy'' [], SReturn] [] ]
      else
        (case map_of bc_plain_entries t of
           Some (values, raws) \<Rightarrow>
             [SPrim t (map (\<lambda>i. compileParam (param_at ps i)) values
                       @ plain_args ps raws [] [])]
         | None \<Rightarrow>
            (case map_of bc_yield_entries t of
               Some (helper, values, raws) \<Rightarrow>
                 [SYieldStar helper (map (\<lambda>i. compileParam (param_at ps i)) values
                                     @ plain_args ps raws [] [])]
             | None \<Rightarrow>
                (case map_of bc_expr_entries t of
                   Some (values, raws, compared, lookups) \<Rightarrow>
                     [SExpr (EOp t (map (\<lambda>i. compileParam (param_at ps i)) values
                                    @ plain_args ps raws compared lookups))]
                 | None \<Rightarrow> [SBlockComment t]))))"
| "compileRepeat ps ss =
     [SForLess (compileParam (param_at ps 0))
        (SGuard 100000 # bc_compileStatements (stmts_at ss 0))]"
| "compileRepeatInf ss = [SWhileTrue (SGuard 1000 # bc_compileStatements (stmts_at ss 0))]"
| "compileRepeatWhile ps ss =
     [SWhile (compileParam (param_at ps 0))
        (SGuard 100000 # bc_compileStatements (stmts_at ss 0))]"
| "compileIf ps ss =
     [SIf (compileParam (param_at ps 0)) (bc_compileStatements (stmts_at ss 0)) [] ]"
| "compileIfElse ps ss =
     [SIf (compileParam (param_at ps 0)) (bc_compileStatements (stmts_at ss 0))
        (bc_compileStatements (stmts_at ss 1))]"
| "bc_compileStatements [] = []"
| "bc_compileStatements (b # bs) = bc_compileBlock b @ bc_compileStatements bs"
  by pat_completeness auto
termination
  by (relation "measure (\<lambda>x. case x of
          Inl (Inl (Inl p)) \<Rightarrow> 4 * size p
        | Inl (Inl (Inr b)) \<Rightarrow> 4 * size b + 3
        | Inl (Inr (Inl (t, ps, ss))) \<Rightarrow>
            4 * (size_list size ps + size_list (size_list size) ss) + 2
        | Inl (Inr (Inr (ps, ss))) \<Rightarrow>
            4 * (size_list size ps + size_list (size_list size) ss) + 1
        | Inr (Inl (Inl ss)) \<Rightarrow> 4 * size_list (size_list size) ss + 1
        | Inr (Inl (Inr (ps, ss))) \<Rightarrow>
            4 * (size_list size ps + size_list (size_list size) ss) + 1
        | Inr (Inr (Inl (ps, ss))) \<Rightarrow>
            4 * (size_list size ps + size_list (size_list size) ss) + 1
        | Inr (Inr (Inr (Inl (ps, ss)))) \<Rightarrow>
            4 * (size_list size ps + size_list (size_list size) ss) + 1
        | Inr (Inr (Inr (Inr bs))) \<Rightarrow> 4 * size_list size bs)")
     (simp_all add: param_at_bound stmts_at_bound)

section \<open>Parsing the generated text\<close>


definition quote_safe :: "string \<Rightarrow> bool" where
  "quote_safe s =
     list_all (\<lambda>c. c \<noteq> CHR 0x27 \<and> c \<noteq> CHR 0x5C \<and> c \<noteq> CHR 0x0A \<and> c \<noteq> CHR 0x0D) s"

definition line_safe :: "string \<Rightarrow> bool" where
  "line_safe s = list_all (\<lambda>c. c \<noteq> CHR 0x0A \<and> c \<noteq> CHR 0x0D) s"

fun comment_safe :: "string \<Rightarrow> bool" where
  "comment_safe (a # b # cs) =
     ((if a = CHR ''*'' then b \<noteq> CHR ''/'' else True) \<and> comment_safe (b # cs))"
| "comment_safe _ = True"

text \<open>
  The text \<open>String(p)\<close> of a parameter between single quotes, or at the end of a line
  comment: only the text of a string can break out.
\<close>

fun raw_safe :: "param \<Rightarrow> bool" where
  "raw_safe (PStr s) = quote_safe s"
| "raw_safe _ = True"

fun raw_line_safe :: "param \<Rightarrow> bool" where
  "raw_line_safe (PStr s) = line_safe s"
| "raw_line_safe _ = True"

text \<open>
  \<open>safe_expr\<close>: the tree shows what the text of the expression means. \<open>not_code_expr\<close>:
  the text contains a piece that is no JavaScript.
\<close>

fun safe_expr :: "expr \<Rightarrow> bool" where
  "safe_expr (EInherited t) = False"
| "safe_expr (EFunctionParam t) = quote_safe t"
| "safe_expr (ECallFunctionValue f args) = (quote_safe f \<and> list_all safe_expr args)"
| "safe_expr (EOp t args) = list_all safe_expr args"
| "safe_expr (ERaw p) = raw_safe p"
| "safe_expr (ENested [SExpr e]) = safe_expr e"
| "safe_expr (ENested _) = False"
| "safe_expr _ = True"

fun not_code_expr :: "expr \<Rightarrow> bool" where
  "not_code_expr ENotCode = True"
| "not_code_expr (ECallFunctionValue f args) = list_ex not_code_expr args"
| "not_code_expr (EOp t args) = list_ex not_code_expr args"
| "not_code_expr (ENested [SExpr e]) = not_code_expr e"
| "not_code_expr _ = False"

fun not_code :: "stmt \<Rightarrow> bool" and not_codes :: "stmt list \<Rightarrow> bool" where
  "not_code SNotCode = True"
| "not_code (SPrim t args) = list_ex not_code_expr args"
| "not_code (SExpr e) = not_code_expr e"
| "not_code (SYieldWait e) = not_code_expr e"
| "not_code (SYieldStar h args) = list_ex not_code_expr args"
| "not_code (SForFloor e body) = (not_code_expr e \<or> not_codes body)"
| "not_code (SForLess e body) = (not_code_expr e \<or> not_codes body)"
| "not_code (SWhileTrue body) = not_codes body"
| "not_code (SWhile e body) = (not_code_expr e \<or> not_codes body)"
| "not_code (SIf e a b) = (not_code_expr e \<or> not_codes a \<or> not_codes b)"
| "not_code _ = False"
| "not_codes [] = False"
| "not_codes (st # sts) = (not_code st \<or> not_codes sts)"

text \<open>A \<open>break\<close> that is in no loop.\<close>

fun stray_break :: "stmt \<Rightarrow> bool" and stray_breaks :: "stmt list \<Rightarrow> bool" where
  "stray_break SBreak = True"
| "stray_break (SIf e a b) = (stray_breaks a \<or> stray_breaks b)"
| "stray_break _ = False"
| "stray_breaks [] = False"
| "stray_breaks (st # sts) = (stray_break st \<or> stray_breaks sts)"

subsection \<open>The text of TurboCompiler\<close>

fun is_comment :: "stmt \<Rightarrow> bool" where
  "is_comment (SComment _) = True"
| "is_comment (SCommentOf _) = True"
| "is_comment _ = False"

definition ends_in_comment :: "stmt list \<Rightarrow> bool" where
  "ends_in_comment sts = (case rev sts of [] \<Rightarrow> False | st # _ \<Rightarrow> is_comment st)"

fun turbo_safe :: "stmt \<Rightarrow> bool" and turbo_safes :: "stmt list \<Rightarrow> bool" where
  "turbo_safe (SComment c) = True"
| "turbo_safe SNotCode = True"
| "turbo_safe (SWarn t) = quote_safe t"
| "turbo_safe (SPrim t args) = list_all safe_expr args"
| "turbo_safe (SExpr e) = safe_expr e"
| "turbo_safe SYieldTick = True"
| "turbo_safe (SYieldWait e) = safe_expr e"
| "turbo_safe (SYieldStar h args) = list_all safe_expr args"
| "turbo_safe SBreak = True"
| "turbo_safe SReturn = True"
| "turbo_safe (SForFloor e body) = (safe_expr e \<and> turbo_safes body)"
| "turbo_safe (SWhileTrue body) = turbo_safes body"
| "turbo_safe (SWhile e body) = (safe_expr e \<and> turbo_safes body)"
| "turbo_safe (SIf e a b) =
     (safe_expr e \<and> turbo_safes a \<and> turbo_safes b \<and>
      \<not> ends_in_comment a \<and> \<not> ends_in_comment b)"
| "turbo_safe _ = False"
| "turbo_safes [] = True"
| "turbo_safes (st # sts) = (turbo_safe st \<and> turbo_safes sts)"


subsection \<open>The text of BlockCompiler\<close>

text \<open>
  The block types whose template has the first compiled parameter as the operand of
  \<open>+\<close> or as the right side of an assignment: \<open>entity.setX(entity.x + p);\<close>,
  \<open>vars['v'] = p;\<close>. \<open>comment_operand\<close>: the nested block is of an unknown type, and
  what stands for the operand is the comment \<open>/* Unknown block: t */\<close>.
\<close>

definition bc_operand_types :: "string list" where
  "bc_operand_types = [''move_x'', ''move_y'', ''direction_relative'', ''change_scale_size'',
     ''set_variable'', ''change_variable'']"

fun comment_operand :: "expr \<Rightarrow> bool" where
  "comment_operand (ENested [SBlockComment t]) = comment_safe t"
| "comment_operand _ = False"

definition operand_safe :: "expr \<Rightarrow> bool" where
  "operand_safe e = (comment_operand e \<or> safe_expr e)"

fun bc_safe :: "stmt \<Rightarrow> bool" and bc_safes :: "stmt list \<Rightarrow> bool" where
  "bc_safe (SComment c) = True"
| "bc_safe (SCommentOf p) = raw_line_safe p"
| "bc_safe (SBlockComment t) = comment_safe t"
| "bc_safe (SPrim t args) =
     (case args of
        [] \<Rightarrow> True
      | e # es \<Rightarrow>
          (if t \<in> set bc_operand_types then operand_safe e else safe_expr e)
          \<and> list_all safe_expr es)"
| "bc_safe (SYieldWait e) = operand_safe e"
| "bc_safe (SYieldStar h args) = list_all safe_expr args"
| "bc_safe SBreak = True"
| "bc_safe SReturn = True"
| "bc_safe (SGuard k) = True"
| "bc_safe (SForLess e body) = (operand_safe e \<and> bc_safes body)"
| "bc_safe (SWhileTrue body) = bc_safes body"
| "bc_safe (SWhile e body) = (operand_safe e \<and> bc_safes body)"
| "bc_safe (SIf e a b) = (operand_safe e \<and> bc_safes a \<and> bc_safes b)"
| "bc_safe _ = False"
| "bc_safes [] = True"
| "bc_safes (st # sts) = (bc_safe st \<and> bc_safes sts)"

fun missing_operand :: "stmt \<Rightarrow> bool" and missing_operands :: "stmt list \<Rightarrow> bool" where
  "missing_operand (SPrim t args) =
     (case args of [] \<Rightarrow> False | e # es \<Rightarrow> t \<in> set bc_operand_types \<and> comment_operand e)"
| "missing_operand (SYieldWait e) = comment_operand e"
| "missing_operand (SForLess e body) = (comment_operand e \<or> missing_operands body)"
| "missing_operand (SWhileTrue body) = missing_operands body"
| "missing_operand (SWhile e body) = (comment_operand e \<or> missing_operands body)"
| "missing_operand (SIf e a b) =
     (comment_operand e \<or> missing_operands a \<or> missing_operands b)"
| "missing_operand _ = False"
| "missing_operands [] = False"
| "missing_operands (st # sts) = (missing_operand st \<or> missing_operands sts)"


section \<open>Running generated code\<close>

text \<open>
  The generated functions are declared \<open>async function*\<close>. A call of \<open>next()\<close> on such a
  generator runs its code, within the call, up to the next \<open>yield\<close> or to the end; what
  it returns is a promise, which is later resolved to the yielded value. \<open>resume\<close> is the
  part of a call of \<open>next()\<close> that runs the code, and its result is what the promise is
  resolved to. The effect of a plain statement on the state of the program (entities,
  variables, lists, runtime), the value of an expression as a number and its truth
  value are parameters; number literals and boolean literals evaluate to themselves.
  The calls into the entity and the runtime are taken to return: an exception thrown by
  one of them would end the thread at that statement. An expression with a call of
  \<open>runtime.callFunctionValue\<close> in it delegates to another generator (\<open>yield*\<close>) while
  it is evaluated.
\<close>

record 's sem =
  prim :: "string \<Rightarrow> expr list \<Rightarrow> 's \<Rightarrow> 's"
  num :: "expr \<Rightarrow> 's \<Rightarrow> real"
  truth :: "expr \<Rightarrow> 's \<Rightarrow> bool"

definition num_of :: "'s sem \<Rightarrow> expr \<Rightarrow> 's \<Rightarrow> real" where
  "num_of sm e s = (case e of ENum n \<Rightarrow> n | _ \<Rightarrow> num sm e s)"

definition truthy :: "'s sem \<Rightarrow> expr \<Rightarrow> 's \<Rightarrow> bool" where
  "truthy sm e s = (case e of EBool b \<Rightarrow> b | ENum n \<Rightarrow> n \<noteq> 0 | _ \<Rightarrow> truth sm e s)"

fun pure_expr :: "expr \<Rightarrow> bool" where
  "pure_expr (ECallFunctionValue f args) = False"
| "pure_expr (EOp t args) = list_all pure_expr args"
| "pure_expr (ENested [SExpr e]) = pure_expr e"
| "pure_expr (ENested _) = False"
| "pure_expr _ = True"

text \<open>
  The control state of a suspended generator is a stack of frames: the rest of a
  statement list, or a loop with its counter \<open>_i\<close> (and \<open>_max\<close>). A configuration is the
  stack, the local \<open>_loopCount\<close> and the program state.
\<close>

datatype frame =
    FSeq "stmt list"
  | FFor nat int "stmt list"
  | FForLess nat expr "stmt list"
  | FWhileTrue "stmt list"
  | FWhile expr "stmt list"

type_synonym 's config = "frame list \<times> nat \<times> 's"

text \<open>
  The result of a step: the code goes on, it yields, it has ended, it delegates to
  another generator (which the model does not follow), or the statement is no
  JavaScript (no generator is ever made from a text with such a statement).
\<close>

datatype 's sres =
    Running "'s config"
  | Yielded suspension "'s config"
  | Finished 's
  | Delegated string "expr list" "'s config"
  | Invalid

text \<open>\<open>break\<close> leaves the innermost loop.\<close>

fun break_out :: "frame list \<Rightarrow> frame list" where
  "break_out [] = []"
| "break_out (FSeq _ # fs) = break_out fs"
| "break_out (_ # fs) = fs"

definition delegation :: "expr list \<Rightarrow> 's config \<Rightarrow> 's sres" where
  "delegation es cfg = Delegated ''runtime.callFunctionValue'' es cfg"

fun exec_stmt :: "'s sem \<Rightarrow> stmt \<Rightarrow> frame list \<Rightarrow> nat \<Rightarrow> 's \<Rightarrow> 's sres" where
  "exec_stmt sm (SComment _) k c s = Running (k, c, s)"
| "exec_stmt sm (SCommentOf _) k c s = Running (k, c, s)"
| "exec_stmt sm (SBlockComment _) k c s = Running (k, c, s)"
| "exec_stmt sm SNotCode k c s = Invalid"
| "exec_stmt sm (SInherited _) k c s = Invalid"
| "exec_stmt sm (SWarn _) k c s = Running (k, c, s)"
| "exec_stmt sm (SPrim n args) k c s =
     (if list_all pure_expr args then Running (k, c, prim sm n args s)
      else delegation args (k, c, s))"
| "exec_stmt sm (SExpr e) k c s =
     (if pure_expr e then Running (k, c, s) else delegation [e] (k, c, s))"
| "exec_stmt sm SYieldTick k c s = Yielded Tick (k, c, s)"
| "exec_stmt sm (SYieldWait e) k c s =
     (if pure_expr e then Yielded (Wait (num_of sm e s * 1000)) (k, c, s)
      else delegation [e] (k, c, s))"
| "exec_stmt sm (SYieldStar h args) k c s = Delegated h args (k, c, s)"
| "exec_stmt sm SBreak k c s = Running (break_out k, c, s)"
| "exec_stmt sm SReturn k c s = Finished s"
| "exec_stmt sm (SGuard limit) k c s =
     (if Suc c > limit then Yielded Tick (k, 0, s) else Running (k, Suc c, s))"
| "exec_stmt sm (SForFloor e body) k c s =
     (if pure_expr e then Running (FFor 0 \<lfloor>num_of sm e s\<rfloor> body # k, c, s)
      else delegation [e] (k, c, s))"
| "exec_stmt sm (SForLess e body) k c s = Running (FForLess 0 e body # k, c, s)"
| "exec_stmt sm (SWhileTrue body) k c s = Running (FWhileTrue body # k, c, s)"
| "exec_stmt sm (SWhile e body) k c s = Running (FWhile e body # k, c, s)"
| "exec_stmt sm (SIf e a b) k c s =
     (if pure_expr e then Running (FSeq (if truthy sm e s then a else b) # k, c, s)
      else delegation [e] (k, c, s))"

fun step :: "'s sem \<Rightarrow> 's config \<Rightarrow> 's sres" where
  "step sm ([], c, s) = Finished s"
| "step sm (FSeq [] # fs, c, s) = Running (fs, c, s)"
| "step sm (FSeq (st # sts) # fs, c, s) = exec_stmt sm st (FSeq sts # fs) c s"
| "step sm (FFor i m body # fs, c, s) =
     (if int i < m then Running (FSeq body # FFor (Suc i) m body # fs, c, s)
      else Running (fs, c, s))"
| "step sm (FForLess i e body # fs, c, s) =
     (if pure_expr e then
        (if real i < num_of sm e s then Running (FSeq body # FForLess (Suc i) e body # fs, c, s)
         else Running (fs, c, s))
      else delegation [e] (FForLess i e body # fs, c, s))"
| "step sm (FWhileTrue body # fs, c, s) = Running (FSeq body # FWhileTrue body # fs, c, s)"
| "step sm (FWhile e body # fs, c, s) =
     (if pure_expr e then
        (if truthy sm e s then Running (FSeq body # FWhile e body # fs, c, s)
         else Running (fs, c, s))
      else delegation [e] (FWhile e body # fs, c, s))"

text \<open>
  \<open>resume\<close> is one call of \<open>next()\<close>: it steps to the next \<open>yield\<close>, to the end, or to a
  delegation. The fuel bounds the number of steps; \<open>None\<close> means that the call has not
  returned within the fuel. \<open>drain\<close> runs a thread alone to its end, one call of
  \<open>next()\<close> after the other, and collects what it yields (it stops at a delegation,
  which is not modelled).
\<close>

fun resume :: "nat \<Rightarrow> 's sem \<Rightarrow> 's config \<Rightarrow> 's sres option" where
  "resume 0 sm cfg = None"
| "resume (Suc fuel) sm cfg =
     (case step sm cfg of Running cfg' \<Rightarrow> resume fuel sm cfg' | r \<Rightarrow> Some r)"


text \<open>
  Statements that neither suspend nor jump: comments, warnings, plain statements and
  expression statements whose expressions do not delegate, and conditionals whose
  condition does not delegate and whose branches are of that kind. \<open>run_stmts\<close> is the
  effect of a list of such statements on the program state.
\<close>

fun quiet :: "stmt \<Rightarrow> bool" and quiets :: "stmt list \<Rightarrow> bool" where
  "quiet (SComment _) = True"
| "quiet (SCommentOf _) = True"
| "quiet (SBlockComment _) = True"
| "quiet (SWarn _) = True"
| "quiet (SPrim n args) = list_all pure_expr args"
| "quiet (SExpr e) = pure_expr e"
| "quiet (SIf e a b) = (pure_expr e \<and> quiets a \<and> quiets b)"
| "quiet _ = False"
| "quiets [] = True"
| "quiets (st # sts) = (quiet st \<and> quiets sts)"

fun run_stmt :: "'s sem \<Rightarrow> stmt \<Rightarrow> 's \<Rightarrow> 's" and run_stmts :: "'s sem \<Rightarrow> stmt list \<Rightarrow> 's \<Rightarrow> 's"
where
  "run_stmt sm (SPrim n args) s = prim sm n args s"
| "run_stmt sm (SIf e a b) s = (if truthy sm e s then run_stmts sm a s else run_stmts sm b s)"
| "run_stmt sm _ s = s"
| "run_stmts sm [] s = s"
| "run_stmts sm (st # sts) s = run_stmts sm sts (run_stmt sm st s)"

text \<open>
  \<open>leads sm cfg ys cfg'\<close>: from \<open>cfg\<close> the code reaches \<open>cfg'\<close>, yielding \<open>ys\<close> on the way.
\<close>

inductive leads :: "'s sem \<Rightarrow> 's config \<Rightarrow> suspension list \<Rightarrow> 's config \<Rightarrow> bool"
  for sm :: "'s sem" where
  leads_refl: "leads sm cfg [] cfg"
| leads_run: "step sm cfg = Running cfg' \<Longrightarrow> leads sm cfg' ys cfg'' \<Longrightarrow> leads sm cfg ys cfg''"
| leads_yield:
    "step sm cfg = Yielded y cfg' \<Longrightarrow> leads sm cfg' ys cfg'' \<Longrightarrow> leads sm cfg (y # ys) cfg''"

section \<open>The compilation caches\<close>

text \<open>
  A compiled function is an object with identity: \<open>fn_store\<close> holds the function objects
  created so far and \<open>next_fn\<close> is the next unused reference. \<open>cache\<close> is the \<open>Map\<close> from
  keys to function references. \<open>JSON.stringify\<close> is the parameter \<open>stringify\<close>.

  When \<open>new Function\<close> throws, \<open>TurboCompiler.compileThread\<close> catches the error and
  returns \<open>createFallbackThread(blocks)\<close>, a new closure, without a \<open>cache.set\<close>;
  \<open>BlockCompiler.createFunction\<close> catches it and returns a new empty generator function,
  which \<open>compileThread\<close> caches like any other. Where the model does not decide the
  parse, the result of \<open>compileThread\<close> is \<open>None\<close>.
\<close>

datatype artifact = CompiledThread "stmt list" | FallbackThread "block list" | EmptyGenerator

record compiler =
  cache :: "(string \<times> nat) list"
  fn_store :: "nat \<rightharpoonup> artifact"
  next_fn :: nat





definition clearCache :: "compiler \<Rightarrow> compiler" where
  "clearCache st = st\<lparr>cache := []\<rparr>"








section \<open>Definitions used to state the claims\<close>

text \<open>\<open>Entry\<close> undefined: no block type has a schema.\<close>

definition no_schemas :: "string \<Rightarrow> schema option" where
  "no_schemas t = None"



text \<open>
  Parameter resolution as the specification words it: the declared index when a schema
  exists and declares the name, otherwise the positional fallback, otherwise 0.
\<close>

definition declared_index :: "schema option \<Rightarrow> string \<Rightarrow> nat option" where
  "declared_index sch symbolicName =
     (case sch of
        None \<Rightarrow> None
      | Some sc \<Rightarrow> (case paramsKeyMap sc of None \<Rightarrow> None | Some km \<Rightarrow> km (Name symbolicName)))"

definition resolveParam_spec :: "schema option \<Rightarrow> string \<Rightarrow> nat option \<Rightarrow> nat" where
  "resolveParam_spec sch symbolicName position =
     (case declared_index sch symbolicName of
        Some i \<Rightarrow> i
      | None \<Rightarrow> (case position of Some p \<Rightarrow> p | None \<Rightarrow> 0))"




text \<open>
  Executor number \<open>a\<close> is suspended in the loop of \<open>broadcastAndWait\<close> with the
  local \<open>executorsBefore = before\<close> and the statements \<open>rest\<close> left to run after the
  wait, and the list holds more than \<open>before\<close> executors.
\<close>

definition waiting :: "runtime \<Rightarrow> nat \<Rightarrow> nat \<Rightarrow> instr list \<Rightarrow> bool" where
  "waiting rt a before rest \<longleftrightarrow>
     a < length (executors rt) \<and> generator (executors rt ! a) = Gen (Some before) rest \<and>
     before < length (executors rt)"

section \<open>Concrete runtime states used in the examples\<close>

definition cat_entity :: entity where
  "cat_entity = TurboEntity_new ''cat'' None"

definition base_runtime :: runtime where
  "base_runtime =
     \<lparr>running = True, paused = False, objects = [''cat'' \<mapsto> 0], entities = [0], clones = [],
      store = [0 \<mapsto> cat_entity], next_ref = 1, date_now = ''0'',
      variables = Map.empty, executors = [], pendingExecutors = [],
      eventListeners = Map.empty, compiler_cache = []\<rparr>"

text \<open>A runtime whose clone list is full: 360 clones of the cat.\<close>

definition full_runtime :: runtime where
  "full_runtime = base_runtime\<lparr>clones := replicate 360 1,
     store := [0 \<mapsto> cat_entity, 1 \<mapsto> clone ''0'' cat_entity], next_ref := 2\<rparr>"

text \<open>
  A running project: the cat has moved, turned and hidden itself, one clone and one
  executor are live, and the compiler has cached one compiled thread.
\<close>

definition moved_cat :: entity where
  "moved_cat = cat_entity\<lparr>posx := 120, posy := - 45, rotation := 30, visible := False\<rparr>"

definition busy_runtime :: runtime where
  "busy_runtime = base_runtime\<lparr>clones := [1],
     store := [0 \<mapsto> moved_cat, 1 \<mapsto> clone ''0'' moved_cat], next_ref := 2,
     executors := [\<lparr>ex_entity = 0, generator = Gen None [IWaitSecond 1], waitUntil = 0\<rparr>],
     compiler_cache := [(''[]'', 0)]\<rparr>"

text \<open>
  One live executor that broadcasts \<open>go\<close>; the cat has one script registered for
  that message, which sets the variable \<open>hit\<close>.
\<close>

definition spawn_scene :: runtime where
  "spawn_scene = base_runtime
     \<lparr>executors := [\<lparr>ex_entity = 0, generator = Gen None [IMessageCast ''go''], waitUntil = 0\<rparr>],
      eventListeners := [''message_go'' \<mapsto> [(0, [ISetVariable ''hit'' 1])] ]\<rparr>"

text \<open>
  Two live executors: the first has nothing left to run; the second runs
  \<open>broadcastAndWait('go')\<close> and then sets \<open>resumed\<close>. The script registered for
  \<open>go\<close> waits ten seconds and then sets \<open>finished\<close>.
\<close>

definition wait_scene :: runtime where
  "wait_scene = base_runtime
     \<lparr>executors :=
        [\<lparr>ex_entity = 0, generator = Gen None [], waitUntil = 0\<rparr>,
         \<lparr>ex_entity = 0,
          generator = Gen None [IMessageCastWait ''go'', ISetVariable ''resumed'' 1],
          waitUntil = 0\<rparr>],
      eventListeners :=
        [''message_go'' \<mapsto> [(0, [IWaitSecond 10, ISetVariable ''finished'' 1])] ]\<rparr>"

text \<open>
  \<open>wait_scene\<close> after its first frame: the second executor is suspended in the loop of
  \<open>broadcastAndWait\<close>, and the executor of the script registered for \<open>go\<close> is third
  in the list.
\<close>

definition waiting_scene :: runtime where
  "waiting_scene = wait_scene
     \<lparr>executors :=
        [\<lparr>ex_entity = 0, generator = Gen None [], waitUntil = 0\<rparr>,
         \<lparr>ex_entity = 0, generator = Gen (Some 2) [ISetVariable ''resumed'' 1], waitUntil = 0\<rparr>,
         \<lparr>ex_entity = 0, generator = Gen None [ISetVariable ''finished'' 1], waitUntil = 0\<rparr>]\<rparr>"

text \<open>What the claims about \<open>stop\<close> say of a primary entity and its snapshot.\<close>

definition restored :: "snapshot \<Rightarrow> entity \<Rightarrow> bool" where
  "restored s e \<longleftrightarrow>
     posx e = init_x s \<and> posy e = init_y s \<and> rotation e = init_rotation s \<and>
     visible e = init_visible s \<and> currentCostumeIndex e = init_costume s"

section \<open>Concrete blocks and threads used in the examples\<close>




text \<open>A schema that declares \<open>OPTION\<close> but not \<open>VALUE\<close>, and one that declares \<open>VALUE\<close>.\<close>

definition option_schema :: schema where
  "option_schema = \<lparr>paramsKeyMap = Some [Name ''OPTION'' \<mapsto> 1], statementsKeyMap = None\<rparr>"

definition value_schema :: schema where
  "value_schema = \<lparr>paramsKeyMap = Some [Name ''VALUE'' \<mapsto> 1], statementsKeyMap = None\<rparr>"

definition two_params :: block where
  "two_params = Block ''dialog'' [PNum 7, PNum 8] []"






section \<open>Properties of entities and of the runtime\<close>

subsection \<open>Graphic effects stay in range\<close>

lemma clamp_range:
  "v \<noteq> JNaN \<Longrightarrow> js_le (JNum lo) (JNum 100) \<Longrightarrow>
     js_le (JNum lo) (Math_max (JNum lo) (Math_min (JNum 100) v)) \<and>
     js_le (Math_max (JNum lo) (Math_min (JNum 100) v)) (JNum 100)"
  by (cases v) (auto simp add: Math_max_def Math_min_def)

lemma js_add_in_range:
  "js_le (JNum lo) g \<Longrightarrow> js_le g (JNum hi) \<Longrightarrow> v \<noteq> JNaN \<Longrightarrow> js_add g v \<noteq> JNaN"
  by (cases g; cases v) simp_all

lemma setEffect_range:
  "effects_in_range e \<Longrightarrow> v \<noteq> JNaN \<Longrightarrow> effects_in_range (setEffect n v e)"
  using clamp_range [of v 0] clamp_range [of v "- 100"]
  by (simp add: effects_in_range_def setEffect_def)

lemma addEffect_range:
  "effects_in_range e \<Longrightarrow> v \<noteq> JNaN \<Longrightarrow> effects_in_range (addEffect n v e)"
  using clamp_range [of "js_add (ghost e) v" 0]
    clamp_range [of "js_add (brightness e) v" "- 100"]
    js_add_in_range [of 0 "ghost e" 100 v] js_add_in_range [of "- 100" "brightness e" 100 v]
  by (simp add: effects_in_range_def addEffect_def)

lemma clearEffects_range: "effects_in_range (clearEffects e)"
  by (simp add: effects_in_range_def clearEffects_def)

lemma apply_effect_call_range:
  "effects_in_range e \<Longrightarrow> not_NaN c \<Longrightarrow> effects_in_range (apply_effect_call e c)"
  by (cases c) (simp_all add: setEffect_range addEffect_range clearEffects_range)

lemma effect_calls_range:
  "effects_in_range e \<Longrightarrow> list_all not_NaN cs \<Longrightarrow>
     effects_in_range (foldl apply_effect_call e cs)"
  by (induction cs arbitrary: e) (simp_all add: apply_effect_call_range)

lemma new_entity_range: "effects_in_range (TurboEntity_new i d)"
  by (simp add: effects_in_range_def TurboEntity_new_def saveInitialState_def Let_def
      split: option.split)

text \<open>
  Claim C10, as stated, fails: \<open>NaN\<close> is a number, and \<open>Math.min(100, NaN)\<close> and
  \<open>Math.max(0, NaN)\<close> are \<open>NaN\<close>. One call \<open>setEffect('ghost', NaN)\<close> on a new entity
  leaves the ghost amount \<open>NaN\<close>, which is not within 0 and 100; one call
  \<open>addEffect('brightness', NaN)\<close> does the same to the brightness amount.
\<close>

theorem effects_NaN_counterexample:
  "ghost (foldl apply_effect_call (TurboEntity_new ''cat'' None) [SetEffect ''ghost'' JNaN])
     = JNaN \<and>
   \<not> effects_in_range
       (foldl apply_effect_call (TurboEntity_new ''cat'' None) [SetEffect ''ghost'' JNaN]) \<and>
   brightness (foldl apply_effect_call (TurboEntity_new ''cat'' None)
       [AddEffect ''brightness'' JNaN]) = JNaN \<and>
   \<not> effects_in_range
       (foldl apply_effect_call (TurboEntity_new ''cat'' None) [AddEffect ''brightness'' JNaN])"
  by (simp add: effects_in_range_def setEffect_def addEffect_def TurboEntity_new_def
      saveInitialState_def Math_max_def Math_min_def)

text \<open>
  Claim C10, amended. Whatever sequence of \<open>setEffect\<close>, \<open>addEffect\<close> and \<open>clearEffects\<close>
  calls, with any effect names and any numbers other than \<open>NaN\<close> (the infinities
  included), is applied to a newly constructed entity (or to any entity whose amounts
  are in range), the ghost amount stays within 0 and 100 and the brightness amount within
  -100 and 100; \<open>clearEffects\<close> sets both to 0.
\<close>

theorem effects_stay_in_range:
  "list_all not_NaN cs \<Longrightarrow>
     effects_in_range (foldl apply_effect_call (TurboEntity_new i d) cs) \<and>
     (effects_in_range e \<longrightarrow> effects_in_range (foldl apply_effect_call e cs)) \<and>
     ghost (clearEffects e) = JNum 0 \<and> brightness (clearEffects e) = JNum 0"
  by (simp add: effect_calls_range new_entity_range clearEffects_def)

theorem effects_stay_in_range_witness:
  "list_all not_NaN
      [SetEffect ''ghost'' (JNum 250), AddEffect ''brightness'' JNegInf,
       AddEffect ''ghost'' (JNum (- 7))] \<and>
   effects_in_range (TurboEntity_new ''cat'' None) \<and>
   effects_in_range (foldl apply_effect_call (TurboEntity_new ''cat'' None)
      [SetEffect ''ghost'' (JNum 250), AddEffect ''brightness'' JNegInf,
       AddEffect ''ghost'' (JNum (- 7))]) \<and>
   ghost (foldl apply_effect_call (TurboEntity_new ''cat'' None)
      [SetEffect ''ghost'' (JNum 250), AddEffect ''brightness'' JNegInf,
       AddEffect ''ghost'' (JNum (- 7))]) = JNum 93 \<and>
   brightness (foldl apply_effect_call (TurboEntity_new ''cat'' None)
      [SetEffect ''ghost'' (JNum 250), AddEffect ''brightness'' JNegInf,
       AddEffect ''ghost'' (JNum (- 7))]) = JNum (- 100)"
proof -
  let ?cs = "[SetEffect ''ghost'' (JNum 250), AddEffect ''brightness'' JNegInf,
       AddEffect ''ghost'' (JNum (- 7))]"
  have h: "list_all not_NaN ?cs" by simp
  have a: "effects_in_range (TurboEntity_new ''cat'' None)"
    by (simp add: effects_in_range_def TurboEntity_new_def saveInitialState_def)
  have b: "ghost (foldl apply_effect_call (TurboEntity_new ''cat'' None) ?cs) = JNum 93"
    by (simp add: setEffect_def addEffect_def TurboEntity_new_def saveInitialState_def
        Math_max_def Math_min_def)
  have c: "brightness (foldl apply_effect_call (TurboEntity_new ''cat'' None) ?cs)
      = JNum (- 100)"
    by (simp add: setEffect_def addEffect_def TurboEntity_new_def saveInitialState_def
        Math_max_def Math_min_def)
  from h a b c effects_stay_in_range [OF h, of "''cat''" None "TurboEntity_new ''cat'' None"]
  show ?thesis by blast
qed

subsection \<open>The clone population cap\<close>

text \<open>
  Claim C6. In every runtime state whose clone list holds 360 clones or more,
  \<open>createClone\<close> (in both runtimes) returns without any effect: the state is unchanged,
  so the entity and clone counts are the same, no entity object is created, no executor
  is started, and nothing is thrown.
\<close>

theorem createClone_at_cap:
  "length (clones rt) \<ge> 360 \<Longrightarrow>
     createClone targetId rt = rt \<and> createClone_v1 targetId rt = rt"
  by (simp add: createClone_def createClone_v1_def split: option.split)

theorem createClone_at_cap_witness:
  "length (clones full_runtime) \<ge> 360 \<and>
   createClone ''cat'' full_runtime = full_runtime \<and>
   createClone_v1 ''cat'' full_runtime = full_runtime"
proof -
  have h: "length (clones full_runtime) \<ge> 360"
    by (simp add: full_runtime_def)
  from h createClone_at_cap [OF h, of "''cat''"] show ?thesis by blast
qed

subsection \<open>Global stop\<close>

lemma reset_restored:
  "initialState e = Some s \<Longrightarrow> restored s (reset e) \<and> initialState (reset e) = Some s"
  by (simp add: reset_def restored_def setCostume_def assign_snapshot_def)

lemma reset_v1_restored:
  "initialState e = Some s \<Longrightarrow> restored s (reset_v1 e) \<and> initialState (reset_v1 e) = Some s"
  by (simp add: reset_v1_def restored_def setCostume_def assign_snapshot_def)

lemma reset_at_fields [simp]:
  "executors (reset_at f rt r) = executors rt"
  "pendingExecutors (reset_at f rt r) = pendingExecutors rt"
  "clones (reset_at f rt r) = clones rt"
  "entities (reset_at f rt r) = entities rt"
  "compiler_cache (reset_at f rt r) = compiler_cache rt"
  by (simp_all add: reset_at_def split: option.split)

lemma foldl_reset_at_fields [simp]:
  "executors (foldl (reset_at f) rt rs) = executors rt"
  "pendingExecutors (foldl (reset_at f) rt rs) = pendingExecutors rt"
  "clones (foldl (reset_at f) rt rs) = clones rt"
  "compiler_cache (foldl (reset_at f) rt rs) = compiler_cache rt"
  by (induction rs arbitrary: rt) simp_all

lemma foldl_reset_at_keeps:
  assumes f: "\<And>e. initialState e = Some s \<Longrightarrow> restored s (f e) \<and> initialState (f e) = Some s"
    and "store rt r = Some e" "initialState e = Some s" "restored s e \<or> r \<in> set rs"
  shows "\<exists>e'. store (foldl (reset_at f) rt rs) r = Some e' \<and> initialState e' = Some s
            \<and> restored s e'"
  using assms(2-)
proof (induction rs arbitrary: rt e)
  case Nil
  then show ?case by simp
next
  case (Cons a rs)
  show ?case
  proof (cases "a = r")
    case True
    have "store (reset_at f rt a) r = Some (f e)"
      using Cons.prems True by (simp add: reset_at_def)
    moreover have "initialState (f e) = Some s" "restored s (f e)"
      using f Cons.prems by blast+
    ultimately show ?thesis
      using Cons.IH [of "reset_at f rt a" "f e"] by simp
  next
    case False
    have st: "store (reset_at f rt a) r = Some e"
      using Cons.prems False by (simp add: reset_at_def split: option.split)
    have "restored s e \<or> r \<in> set rs" using Cons.prems False by auto
    then show ?thesis
      using Cons.IH [of "reset_at f rt a" e] st Cons.prems by simp
  qed
qed

lemma entity_destroy_fields [simp]:
  "executors (entity_destroy r rt) = executors rt"
  "pendingExecutors (entity_destroy r rt) = pendingExecutors rt"
  "entities (entity_destroy r rt) = entities rt"
  "compiler_cache (entity_destroy r rt) = compiler_cache rt"
  by (simp_all add: entity_destroy_def Let_def split: option.split)

lemma entity_destroy_initialState:
  "map_option initialState (store (entity_destroy r rt) q) = map_option initialState (store rt q)"
  by (simp add: entity_destroy_def Let_def setVisible_def split: option.split)

lemma destroy_clones_loop_fields:
  "executors (destroy_clones_loop i rt) = executors rt \<and>
   pendingExecutors (destroy_clones_loop i rt) = pendingExecutors rt \<and>
   entities (destroy_clones_loop i rt) = entities rt \<and>
   compiler_cache (destroy_clones_loop i rt) = compiler_cache rt \<and>
   map_option initialState (store (destroy_clones_loop i rt) q)
     = map_option initialState (store rt q)"
proof (induction i rt rule: destroy_clones_loop.induct)
  case (1 i rt)
  show ?case
  proof (cases "i < length (clones rt)")
    case True
    then show ?thesis
      using "1.IH" [OF True]
      by (subst (1 2 3 4 5) destroy_clones_loop.simps) (simp add: entity_destroy_initialState)
  next
    case False
    then show ?thesis by (subst (1 2 3 4 5) destroy_clones_loop.simps) simp
  qed
qed

lemma stop_unfold:
  "stop rt = foldl (reset_at reset)
      ((destroy_clones_loop 0
          (rt\<lparr>running := False, paused := False, executors := [], pendingExecutors := []\<rparr>))
        \<lparr>clones := []\<rparr>) (entities rt)"
  using destroy_clones_loop_fields
    [of 0 "rt\<lparr>running := False, paused := False, executors := [], pendingExecutors := []\<rparr>" 0]
  by (simp add: stop_def Let_def)

lemma stop_v1_unfold:
  "stop_v1 rt = foldl (reset_at reset_v1)
      ((destroy_clones_loop 0 (rt\<lparr>running := False, executors := []\<rparr>))\<lparr>clones := []\<rparr>)
      (entities rt)"
  using destroy_clones_loop_fields [of 0 "rt\<lparr>running := False, executors := []\<rparr>" 0]
  by (simp add: stop_v1_def Let_def)

lemma stop_lists:
  "executors (stop rt) = [] \<and> pendingExecutors (stop rt) = [] \<and> clones (stop rt) = [] \<and>
   compiler_cache (stop rt) = compiler_cache rt"
  using destroy_clones_loop_fields
    [of 0 "rt\<lparr>running := False, paused := False, executors := [], pendingExecutors := []\<rparr>" 0]
  by (simp add: stop_unfold)

lemma stop_v1_lists:
  "executors (stop_v1 rt) = [] \<and> clones (stop_v1 rt) = [] \<and>
   compiler_cache (stop_v1 rt) = compiler_cache rt"
  using destroy_clones_loop_fields [of 0 "rt\<lparr>running := False, executors := []\<rparr>" 0]
  by (simp add: stop_v1_unfold)

lemma stop_entity:
  assumes "r \<in> set (entities rt)" and "store rt r = Some e" and "initialState e = Some s"
  shows "\<exists>e'. store (stop rt) r = Some e' \<and> restored s e'"
proof -
  define rt1 where
    "rt1 = rt\<lparr>running := False, paused := False, executors := [], pendingExecutors := []\<rparr>"
  have "map_option initialState (store (destroy_clones_loop 0 rt1) r) = Some (Some s)"
    using destroy_clones_loop_fields [of 0 rt1 r] assms by (simp add: rt1_def)
  then obtain e2 where e2:
    "store (destroy_clones_loop 0 rt1) r = Some e2" "initialState e2 = Some s"
    by auto
  have "\<exists>e'. store (foldl (reset_at reset) ((destroy_clones_loop 0 rt1)\<lparr>clones := []\<rparr>)
                 (entities rt)) r = Some e' \<and> initialState e' = Some s \<and> restored s e'"
  proof (rule foldl_reset_at_keeps [where e = e2])
    show "store ((destroy_clones_loop 0 rt1)\<lparr>clones := []\<rparr>) r = Some e2" using e2 by simp
    show "initialState e2 = Some s" by (rule e2)
    show "restored s e2 \<or> r \<in> set (entities rt)" using assms by simp
  qed (rule reset_restored)
  then show ?thesis unfolding stop_unfold rt1_def by blast
qed

lemma stop_v1_entity:
  assumes "r \<in> set (entities rt)" and "store rt r = Some e" and "initialState e = Some s"
  shows "\<exists>e'. store (stop_v1 rt) r = Some e' \<and> restored s e'"
proof -
  define rt1 where "rt1 = rt\<lparr>running := False, executors := []\<rparr>"
  have "map_option initialState (store (destroy_clones_loop 0 rt1) r) = Some (Some s)"
    using destroy_clones_loop_fields [of 0 rt1 r] assms by (simp add: rt1_def)
  then obtain e2 where e2:
    "store (destroy_clones_loop 0 rt1) r = Some e2" "initialState e2 = Some s"
    by auto
  have "\<exists>e'. store (foldl (reset_at reset_v1) ((destroy_clones_loop 0 rt1)\<lparr>clones := []\<rparr>)
                 (entities rt)) r = Some e' \<and> initialState e' = Some s \<and> restored s e'"
  proof (rule foldl_reset_at_keeps [where e = e2])
    show "store ((destroy_clones_loop 0 rt1)\<lparr>clones := []\<rparr>) r = Some e2" using e2 by simp
    show "initialState e2 = Some s" by (rule e2)
    show "restored s e2 \<or> r \<in> set (entities rt)" using assms by simp
  qed (rule reset_v1_restored)
  then show ?thesis unfolding stop_v1_unfold rt1_def by blast
qed

text \<open>
  Claim C7, as stated, fails on its last clause: \<open>stop\<close> does not touch the compilation
  cache. In the running project \<open>busy_runtime\<close> the cache holds one compiled thread, and
  it still holds it after \<open>stop\<close>, in both runtimes.
\<close>

theorem stop_keeps_cache_counterexample:
  "compiler_cache (stop busy_runtime) = [(''[]'', 0)] \<and>
   compiler_cache (stop_v1 busy_runtime) = [(''[]'', 0)]"
  by (simp add: stop_lists stop_v1_lists busy_runtime_def base_runtime_def)

text \<open>
  Claim C7, amended. After \<open>stop\<close> (in both runtimes) the executor list and the clone
  list are empty, and every primary entity that has a recorded snapshot has the
  position, rotation, visibility and costume index of that snapshot. The compilation
  cache is left as it was.
\<close>

theorem stop_resets_entities:
  assumes "r \<in> set (entities rt)" and "store rt r = Some e" and "initialState e = Some s"
  shows "executors (stop rt) = [] \<and> pendingExecutors (stop rt) = [] \<and> clones (stop rt) = [] \<and>
         (\<exists>e'. store (stop rt) r = Some e' \<and> restored s e') \<and>
         compiler_cache (stop rt) = compiler_cache rt \<and>
         executors (stop_v1 rt) = [] \<and> clones (stop_v1 rt) = [] \<and>
         (\<exists>e'. store (stop_v1 rt) r = Some e' \<and> restored s e') \<and>
         compiler_cache (stop_v1 rt) = compiler_cache rt"
  using stop_lists [of rt] stop_v1_lists [of rt] stop_entity [OF assms] stop_v1_entity [OF assms]
  by blast

theorem stop_resets_entities_witness:
  "0 \<in> set (entities busy_runtime) \<and> store busy_runtime 0 = Some moved_cat \<and>
   posx moved_cat = 120 \<and> \<not> visible moved_cat \<and>
   clones busy_runtime = [1] \<and> length (executors busy_runtime) = 1 \<and>
   executors (stop busy_runtime) = [] \<and> clones (stop busy_runtime) = [] \<and>
   (\<exists>e'. store (stop busy_runtime) 0 = Some e' \<and> posx e' = 0 \<and> posy e' = 0 \<and>
          rotation e' = 0 \<and> visible e' \<and> currentCostumeIndex e' = 0) \<and>
   executors (stop_v1 busy_runtime) = [] \<and> clones (stop_v1 busy_runtime) = [] \<and>
   (\<exists>e'. store (stop_v1 busy_runtime) 0 = Some e' \<and> posx e' = 0 \<and> posy e' = 0 \<and>
          rotation e' = 0 \<and> visible e' \<and> currentCostumeIndex e' = 0)"
proof -
  define s where "s = \<lparr>init_x = 0, init_y = 0, init_rotation = 0, init_direction = 90,
     init_scaleX = 1, init_scaleY = 1, init_visible = True, init_ghost = JNum 0,
     init_brightness = JNum 0, init_costume = 0\<rparr>"
  have h1: "0 \<in> set (entities busy_runtime)"
    by (simp add: busy_runtime_def base_runtime_def)
  have h2: "store busy_runtime 0 = Some moved_cat"
    by (simp add: busy_runtime_def base_runtime_def)
  have h3: "initialState moved_cat = Some s"
    by (simp add: moved_cat_def cat_entity_def TurboEntity_new_def saveInitialState_def s_def)
  have h4: "posx moved_cat = 120 \<and> \<not> visible moved_cat \<and>
    clones busy_runtime = [1] \<and> length (executors busy_runtime) = 1"
    by (simp add: moved_cat_def busy_runtime_def base_runtime_def)
  have r: "restored s e' \<longleftrightarrow> posx e' = 0 \<and> posy e' = 0 \<and> rotation e' = 0 \<and> visible e' \<and>
    currentCostumeIndex e' = 0" for e'
    by (simp add: restored_def s_def)
  from stop_resets_entities [OF h1 h2 h3] h1 h2 h4 show ?thesis
    unfolding r by blast
qed

subsection \<open>The list of executors during passes\<close>

lemma foldl_grows:
  assumes "\<And>r x. \<exists>new. executors (f r x) = executors r @ new"
  shows "\<exists>new. executors (foldl f rt xs) = executors rt @ new"
proof (induction xs arbitrary: rt)
  case Nil
  show ?case by simp
next
  case (Cons x xs)
  from assms [of rt x] obtain n1 where n1: "executors (f rt x) = executors rt @ n1" by blast
  from Cons [of "f rt x"] obtain n2 where "executors (foldl f (f rt x) xs) = executors (f rt x) @ n2"
    by blast
  then show ?case using n1 by simp
qed

lemma broadcast_grows: "\<exists>new. executors (broadcast m rt) = executors rt @ new"
  unfolding broadcast_def fireEvent_def
  by (cases "eventListeners rt (event_key ''message'' m)")
     (auto intro!: foldl_grows simp add: startExecutor_def)

lemma createClone_grows: "\<exists>new. executors (createClone t rt) = executors rt @ new"
proof -
  have key: "\<exists>new. executors
        (case L of None \<Rightarrow> r0
         | Some ls \<Rightarrow> foldl (\<lambda>r (ent, fn). if P r ent then startExecutor c fn r else r) r0 ls)
      = executors rt @ new" if "executors r0 = executors rt" for r0 L P c
  proof (cases L)
    case None
    then show ?thesis using that by simp
  next
    case (Some ls)
    have "\<exists>new. executors (foldl (\<lambda>r (ent, fn). if P r ent then startExecutor c fn r else r) r0 ls)
        = executors r0 @ new"
      by (rule foldl_grows) (auto simp add: startExecutor_def)
    then show ?thesis using that Some by simp
  qed
  show ?thesis
    unfolding createClone_def new_object_def Let_def
    by (simp split: option.split add: key)
qed

lemma reset_at_executors: "executors (reset_at f rt r) = executors rt"
  by (simp add: reset_at_def split: option.split)

lemma gen_next_grows: "\<exists>new. executors (snd (gen_next g ent rt)) = executors rt @ new"
proof (induction g ent rt rule: gen_next.induct)
  case (5 m rest ent rt)
  from broadcast_grows [of m rt] obtain n1 where "executors (broadcast m rt) = executors rt @ n1"
    by blast
  then show ?case using 5 by auto
next
  case (6 m rest ent rt)
  then show ?case using broadcast_grows [of m rt] by auto
next
  case (7 t rest ent rt)
  from createClone_grows [of t rt] obtain n1 where "executors (createClone t rt) = executors rt @ n1"
    by blast
  then show ?case using 7 by auto
next
  case (9 b rest ent rt)
  then show ?case by (simp add: reset_at_executors)
qed auto

lemma step_keeps_waiting:
  assumes w: "waiting rt a before rest" and i: "i < length (executors rt)"
    and g: "gen_next (generator (executors rt ! i)) (ex_entity (executors rt ! i)) rt = (g, rt1)"
  shows "waiting (rt1\<lparr>executors := (executors rt1)[i := (executors rt ! i)\<lparr>generator := g\<rparr>]\<rparr>)
           a before rest"
proof -
  from gen_next_grows [of "generator (executors rt ! i)" "ex_entity (executors rt ! i)" rt] g
  obtain new where n: "executors rt1 = executors rt @ new" by auto
  show ?thesis
  proof (cases "i = a")
    case True
    then have "g = Gen (Some before) rest" using w g by (auto simp add: waiting_def)
    then show ?thesis using w n True by (auto simp add: waiting_def nth_append)
  next
    case False
    then show ?thesis using w n by (auto simp add: waiting_def nth_append)
  qed
qed

lemma update_loop_waiting:
  "update_loop fuel i [] now rt = Some (c, rt') \<Longrightarrow> waiting rt a before rest \<Longrightarrow>
     c = [] \<and> waiting rt' a before rest"
proof (induction fuel arbitrary: i rt)
  case 0
  then show ?case by simp
next
  case (Suc fuel)
  show ?case
  proof (cases "i < length (executors rt)")
    case False
    then show ?thesis using Suc.prems by simp
  next
    case True
    show ?thesis
    proof (cases "waitUntil (executors rt ! i) > now")
      case w: True
      then have "update_loop fuel (Suc i) [] now rt = Some (c, rt')"
        using Suc.prems(1) True by (simp add: Let_def)
      then show ?thesis using Suc.IH Suc.prems(2) by blast
    next
      case w: False
      obtain g rt1 where
        g: "gen_next (generator (executors rt ! i)) (ex_entity (executors rt ! i)) rt = (g, rt1)"
        by (cases "gen_next (generator (executors rt ! i)) (ex_entity (executors rt ! i)) rt")
      let ?rt2 = "rt1\<lparr>executors := (executors rt1)[i := (executors rt ! i)\<lparr>generator := g\<rparr>]\<rparr>"
      have "update_loop fuel (Suc i) [] now ?rt2 = Some (c, rt')"
        using Suc.prems(1) True w g by (simp add: Let_def result_done_def result_value_def)
      moreover have "waiting ?rt2 a before rest"
        by (rule step_keeps_waiting [OF Suc.prems(2) True g])
      ultimately show ?thesis using Suc.IH by blast
    qed
  qed
qed

lemma updateExecutors_waiting:
  assumes "updateExecutors fuel now rt = Some rt'" "waiting rt a before rest"
  shows "waiting rt' a before rest"
proof -
  from assms(1) obtain c rt1 where l: "update_loop fuel 0 [] now rt = Some (c, rt1)"
    by (auto simp add: updateExecutors_def split: option.splits)
  from update_loop_waiting [OF l assms(2)] have c: "c = []" and w: "waiting rt1 a before rest"
    by simp_all
  show ?thesis
    using assms(1) l c w
    by (auto simp add: updateExecutors_def Let_def waiting_def nth_append split: if_splits)
qed

lemma settle_loop_waiting:
  "settle_loop fuel i rt = Some rt' \<Longrightarrow> waiting rt a before rest \<Longrightarrow> waiting rt' a before rest"
proof (induction fuel arbitrary: i rt)
  case 0
  then show ?case by simp
next
  case (Suc fuel)
  show ?case
  proof (cases "i < length (executors rt)")
    case False
    then show ?thesis using Suc.prems Suc.IH by (auto split: if_splits)
  next
    case True
    show ?thesis
    proof (cases "generator (executors rt ! i)")
      case (Gen w r)
      then have "settle_loop fuel (Suc i) rt = Some rt'"
        using Suc.prems(1) True by (simp add: Let_def)
      then show ?thesis using Suc.IH Suc.prems(2) by blast
    next
      case (Settling r)
      obtain g rt1 where g: "gen_next (Gen None r) (ex_entity (executors rt ! i)) rt = (g, rt1)"
        by (cases "gen_next (Gen None r) (ex_entity (executors rt ! i)) rt")
      let ?rt2 = "rt1\<lparr>executors := (executors rt1)[i := (executors rt ! i)\<lparr>generator := g\<rparr>]\<rparr>"
      have s: "settle_loop fuel (Suc i) ?rt2 = Some rt'"
        using Suc.prems(1) True Settling g by (simp add: Let_def)
      from gen_next_grows [of "Gen None r" "ex_entity (executors rt ! i)" rt] g
      obtain new where n: "executors rt1 = executors rt @ new" by auto
      have "i \<noteq> a" using Settling Suc.prems(2) by (auto simp add: waiting_def)
      then have "waiting ?rt2 a before rest"
        using Suc.prems(2) n by (auto simp add: waiting_def nth_append)
      then show ?thesis using Suc.IH s by blast
    qed
  qed
qed

lemma frame_waiting:
  assumes "frame fuel now rt = Some rt'" "waiting rt a before rest"
  shows "waiting rt' a before rest"
proof -
  from assms(1) obtain rt1 where u: "updateExecutors fuel now rt = Some rt1"
    and s: "settle_loop fuel 0 rt1 = Some rt'"
    by (auto simp add: frame_def split: option.splits)
  show ?thesis by (rule settle_loop_waiting [OF s updateExecutors_waiting [OF u assms(2)]])
qed

lemma frames_waiting:
  "frames fuel nows rt = Some rt' \<Longrightarrow> waiting rt a before rest \<Longrightarrow> waiting rt' a before rest"
proof (induction nows arbitrary: rt)
  case Nil
  then show ?case by simp
next
  case (Cons now nows)
  from Cons.prems(1) obtain rt1 where f: "frame fuel now rt = Some rt1"
    and r: "frames fuel nows rt1 = Some rt'"
    by (auto split: option.splits)
  show ?case by (rule Cons.IH [OF r frame_waiting [OF f Cons.prems(2)]])
qed

subsection \<open>Executors spawned during a scheduler pass\<close>

lemmas scene_defs = spawn_scene_def wait_scene_def waiting_scene_def base_runtime_def
  cat_entity_def updateExecutors_def frame_def broadcast_def fireEvent_def event_key_def
  startExecutor_def entity_visible_def TurboEntity_new_def saveInitialState_def splice1_def
  result_done_def result_value_def Let_def

text \<open>
  Claim C4 does not hold of the code. In \<open>spawn_scene\<close> one executor is live, \<open>hit\<close> is
  unset and \<open>pendingExecutors\<close> is empty. The thread of the live executor broadcasts
  \<open>go\<close>; \<open>startExecutor\<close> pushes the executor of the registered script on
  \<open>executors\<close>, and the loop of \<open>updateExecutors\<close>, which reads \<open>executors.length\<close>
  at every iteration, calls \<open>next()\<close> on it within the same pass: after the one pass
  \<open>hit\<close>, which only the new executor sets, is 1. Both generators have run to their
  end and both executors are still in the list; \<open>pendingExecutors\<close> is still empty.
\<close>

theorem spawned_executor_runs_in_same_pass:
  "length (executors spawn_scene) = 1 \<and> variables spawn_scene ''hit'' = None \<and>
   pendingExecutors spawn_scene = [] \<and>
   map_option (\<lambda>rt. (variables rt ''hit'', map generator (executors rt), pendingExecutors rt))
      (updateExecutors 10 0 spawn_scene)
     = Some (Some 1, [Gen None [], Gen None [] ], [])"
  by (simp add: scene_defs eval_nat_numeral)

subsection \<open>Broadcast and wait\<close>

lemma first_frame: "frame 10 0 wait_scene = Some waiting_scene"
  by (simp add: scene_defs eval_nat_numeral)

lemma later_frames:
  "map_option (\<lambda>rt. (variables rt ''resumed'', variables rt ''finished'',
        map generator (executors rt)))
      (frames 10 [16, 32] waiting_scene)
   = Some (None, Some 1, [Gen None [], Gen (Some 2) [ISetVariable ''resumed'' 1], Gen None [] ])"
  by (simp add: scene_defs eval_nat_numeral)

text \<open>
  Claim C3. When the broadcast of \<open>broadcastAndWait(m)\<close> starts at least one executor,
  the call of \<open>next()\<close> leaves the calling generator suspended in the loop of
  \<open>broadcastAndWait\<close>, with \<open>executorsBefore\<close> the number of executors before the
  broadcast. An executor that is suspended in that loop while the list holds more than
  \<open>executorsBefore\<close> executors is still suspended there, with the same statements
  left to run after the wait, after any number of frames at any times, whatever the
  other executors do in these frames, broadcasts included: it is not resumed past the
  wait while an executor that was started by its broadcast has not ended. (No pass removes
  an executor from the list, so it is not resumed past the wait afterwards either.)
\<close>

theorem broadcastAndWait_stays_suspended:
  "(length (executors rt) < length (executors (broadcast m rt)) \<longrightarrow>
      gen_next (Gen None (IMessageCastWait m # rest)) ent rt
        = (Gen (Some (length (executors rt))) rest, broadcast m rt)) \<and>
   (waiting rt' a before rest' \<and> frames fuel nows rt' = Some rt'' \<longrightarrow>
      waiting rt'' a before rest')"
  using frames_waiting [of fuel nows rt' rt'' a before rest'] by simp

theorem broadcastAndWait_stays_suspended_witness:
  "length (executors wait_scene) < length (executors (broadcast ''go'' wait_scene)) \<and>
   gen_next (Gen None [IMessageCastWait ''go'', ISetVariable ''resumed'' 1]) 0 wait_scene
     = (Gen (Some 2) [ISetVariable ''resumed'' 1], broadcast ''go'' wait_scene) \<and>
   frame 10 0 wait_scene = Some waiting_scene \<and>
   waiting waiting_scene 1 2 [ISetVariable ''resumed'' 1] \<and>
   (\<exists>rt. frames 10 [16, 32] waiting_scene = Some rt \<and>
      waiting rt 1 2 [ISetVariable ''resumed'' 1] \<and>
      variables rt ''resumed'' = None \<and> variables rt ''finished'' = Some 1)"
proof -
  have h1: "length (executors wait_scene) < length (executors (broadcast ''go'' wait_scene))"
    by (simp add: scene_defs)
  have l: "length (executors wait_scene) = 2" by (simp add: scene_defs)
  have h2: "waiting waiting_scene 1 2 [ISetVariable ''resumed'' 1]"
    by (simp add: waiting_def waiting_scene_def)
  from later_frames obtain rt where f: "frames 10 [16, 32] waiting_scene = Some rt"
    and v: "variables rt ''resumed'' = None" "variables rt ''finished'' = Some 1"
    by (cases "frames 10 [16, 32] waiting_scene") auto
  note t = broadcastAndWait_stays_suspended [of wait_scene "''go''"
      "[ISetVariable ''resumed'' 1]" 0 waiting_scene 1 2 "[ISetVariable ''resumed'' 1]"
      10 "[16, 32]" rt]
  from t h1 have 1: "gen_next (Gen None [IMessageCastWait ''go'', ISetVariable ''resumed'' 1]) 0
      wait_scene = (Gen (Some 2) [ISetVariable ''resumed'' 1], broadcast ''go'' wait_scene)"
    unfolding l by blast
  from t h2 f have 2: "waiting rt 1 2 [ISetVariable ''resumed'' 1]" by blast
  from h1 1 first_frame h2 f 2 v show ?thesis by blast
qed

section \<open>Properties of the generated code\<close>

subsection \<open>Steps of quiet statements and of loops\<close>

lemma leads_trans:
  "leads sm a ys b \<Longrightarrow> leads sm b zs c \<Longrightarrow> leads sm a (ys @ zs) c"
  by (induction rule: leads.induct) (auto intro: leads.intros)

lemma leads_step: "step sm cfg = Running cfg' \<Longrightarrow> leads sm cfg [] cfg'"
  by (rule leads_run [OF _ leads_refl])



lemma quiet_leads:
  "quiet st \<Longrightarrow>
     leads sm (FSeq (st # rest) # fs, c, s) [] (FSeq rest # fs, c, run_stmt sm st s)"
  and quiets_leads: "quiets sts \<Longrightarrow>
     leads sm (FSeq (sts @ rest') # fs', c', s') [] (FSeq rest' # fs', c', run_stmts sm sts s')"
proof (induction st and sts arbitrary: rest fs c s and rest' fs' c' s'
    rule: quiet_quiets.induct)
  case (7 e a b)
  let ?br = "if truthy sm e s then a else b"
  have qb: "quiets ?br" using "7.prems" by simp
  have la: "leads sm (FSeq a # FSeq rest # fs, c, s) []
             (FSeq [] # FSeq rest # fs, c, run_stmts sm a s)"
    using "7.IH"(1) [of "[]" "FSeq rest # fs" c s] "7.prems" by simp
  have lb: "leads sm (FSeq b # FSeq rest # fs, c, s) []
             (FSeq [] # FSeq rest # fs, c, run_stmts sm b s)"
    using "7.IH"(2) [of "[]" "FSeq rest # fs" c s] "7.prems" by simp
  have l: "leads sm (FSeq ?br # FSeq rest # fs, c, s) []
             (FSeq [] # FSeq rest # fs, c, run_stmts sm ?br s)"
    using la lb by simp
  have s1: "step sm (FSeq (SIf e a b # rest) # fs, c, s)
      = Running (FSeq ?br # FSeq rest # fs, c, s)"
    using "7.prems" by simp
  have s2: "step sm (FSeq [] # FSeq rest # fs, c, run_stmts sm ?br s)
      = Running (FSeq rest # fs, c, run_stmts sm ?br s)" by simp
  have "leads sm (FSeq (SIf e a b # rest) # fs, c, s) ([] @ [])
      (FSeq rest # fs, c, run_stmts sm ?br s)"
    by (rule leads_run [OF s1, OF leads_trans [OF l leads_step [OF s2]]])
  then show ?case by (cases "truthy sm e s") simp_all
next
  case (10 st sts)
  have a: "leads sm (FSeq (st # sts @ rest') # fs', c', s') []
      (FSeq (sts @ rest') # fs', c', run_stmt sm st s')"
    using 10 by simp
  have b: "leads sm (FSeq (sts @ rest') # fs', c', run_stmt sm st s') []
      (FSeq rest' # fs', c', run_stmts sm sts (run_stmt sm st s'))"
    using 10 by simp
  show ?case using leads_trans [OF a b] by simp
qed (auto intro: leads_step leads_refl)

















subsection \<open>Bounded repeat\<close>





lemma resume_numeral:
  "resume (numeral k) sm cfg =
     (case step sm cfg of Running cfg' \<Rightarrow> resume (pred_numeral k) sm cfg' | r \<Rightarrow> Some r)"
  by (simp add: numeral_eq_Suc)



subsection \<open>Unbounded repeat\<close>







subsection \<open>Parameter resolution\<close>

text \<open>
  Claim C8, amended. \<open>getParam\<close> returns the compiled value of the parameter at the
  declared index when the schema has a key map that declares the name. When the schema
  has a key map that does not declare the name, it returns the text \<open>'0'\<close>, whatever
  the parameters are and also when the name is a number. Without a schema, or without a
  key map in it, it returns the compiled value of the parameter at position 0 for a
  symbolic name and at position \<open>j\<close> for the number \<open>j\<close>. A missing parameter compiles
  to \<open>'0'\<close>. No case throws.
\<close>

theorem getParam_resolution:
  "(declared_index sch n = Some i \<longrightarrow>
      getParam E (Block t ps ss) (Name n) sch = compileParamValue E (param_at ps i)) \<and>
   (sch = Some sc \<and> paramsKeyMap sc = Some km \<and> km pn = None \<longrightarrow>
      getParam E (Block t ps ss) pn sch = ENum 0) \<and>
   (sch = None \<or> (sch = Some sc \<and> paramsKeyMap sc = None) \<longrightarrow>
      getParam E (Block t ps ss) (Name n) sch = compileParamValue E (param_at ps 0) \<and>
      getParam E (Block t ps ss) (Index j) sch = compileParamValue E (param_at ps j)) \<and>
   (length ps \<le> j \<longrightarrow> compileParamValue E (param_at ps j) = ENum 0)"
  by (auto simp add: declared_index_def param_at_def split: option.splits)

theorem getParam_resolution_witness:
  "declared_index (Some value_schema) ''VALUE'' = Some 1 \<and>
   getParam no_schemas two_params (Name ''VALUE'') (Some value_schema) = ENum 8 \<and>
   getParam no_schemas two_params (Name ''VALUE'') (Some option_schema) = ENum 0 \<and>
   getParam no_schemas two_params (Name ''VALUE'') None = ENum 7 \<and>
   getParam no_schemas two_params (Index 1) None = ENum 8 \<and>
   getParam no_schemas two_params (Index 2) None = ENum 0"
proof -
  have d: "declared_index (Some value_schema) ''VALUE'' = Some 1"
    by (simp add: declared_index_def value_schema_def)
  have u: "Some option_schema = Some option_schema \<and>
           paramsKeyMap option_schema = Some [Name ''OPTION'' \<mapsto> 1] \<and>
           [Name ''OPTION'' \<mapsto> (1::nat)] (Name ''VALUE'') = None"
    by (simp add: option_schema_def)
  have l: "length [PNum 7, PNum 8] \<le> 2" by simp
  have v: "compileParamValue no_schemas (param_at [PNum 7, PNum 8] 1) = ENum 8"
          "compileParamValue no_schemas (param_at [PNum 7, PNum 8] 0) = ENum 7"
    by (simp_all add: param_at_def)
  note a = getParam_resolution [of "Some value_schema" "''VALUE''" 1 no_schemas "''dialog''"
      "[PNum 7, PNum 8]" "[]" value_schema Map.empty "Name ''VALUE''" 1]
  note b = getParam_resolution [of "Some option_schema" "''VALUE''" 1 no_schemas "''dialog''"
      "[PNum 7, PNum 8]" "[]" option_schema "[Name ''OPTION'' \<mapsto> 1]" "Name ''VALUE''" 1]
  note c = getParam_resolution [of None "''VALUE''" 1 no_schemas "''dialog''"
      "[PNum 7, PNum 8]" "[]" value_schema Map.empty "Name ''VALUE''" 1]
  note e = getParam_resolution [of None "''VALUE''" 1 no_schemas "''dialog''"
      "[PNum 7, PNum 8]" "[]" value_schema Map.empty "Name ''VALUE''" 2]
  from a d v have 1: "getParam no_schemas two_params (Name ''VALUE'') (Some value_schema) = ENum 8"
    unfolding two_params_def by simp
  from b u have 2: "getParam no_schemas two_params (Name ''VALUE'') (Some option_schema) = ENum 0"
    unfolding two_params_def by blast
  from c v have 3: "getParam no_schemas two_params (Name ''VALUE'') None = ENum 7"
    "getParam no_schemas two_params (Index 1) None = ENum 8"
    unfolding two_params_def by simp_all
  from e l have 4: "getParam no_schemas two_params (Index 2) None = ENum 0"
    unfolding two_params_def by simp
  from d 1 2 3 4 show ?thesis by blast
qed

text \<open>
  Claim C8, as stated, fails when a schema exists and does not declare the name: for the
  block with parameters 7 and 8 and a schema that declares only \<open>OPTION\<close>,
  \<open>getParam\<close> returns \<open>'0'\<close> for the name \<open>VALUE\<close> and for the position 1, where the
  stated resolution gives the parameter at the default index 0 (7) and at the positional
  fallback 1 (8).
\<close>

theorem getParam_not_positional_counterexample:
  "declared_index (Some option_schema) ''VALUE'' = None \<and>
   getParam no_schemas two_params (Name ''VALUE'') (Some option_schema) = ENum 0 \<and>
   compileParamValue no_schemas
     (param_at (bparams two_params) (resolveParam_spec (Some option_schema) ''VALUE'' None))
     = ENum 7 \<and>
   getParam no_schemas two_params (Index 1) (Some option_schema) = ENum 0 \<and>
   compileParamValue no_schemas
     (param_at (bparams two_params) (resolveParam_spec (Some option_schema) ''VALUE'' (Some 1)))
     = ENum 8"
  by (simp add: declared_index_def resolveParam_spec_def option_schema_def two_params_def
      param_at_def)

subsection \<open>Blocks and expressions without a compiler rule\<close>















subsection \<open>The compilation cache\<close>






















end
